theory Spec2Isabelle
  imports Complex_Main "HOL-Library.Word"
begin

unbundle bit_operations_syntax

section \<open>Values crossing the channel\<close>

text \<open>
  The service of \<^verbatim>\<open>signalr.service.ts\<close> (class \<^verbatim>\<open>WebInteractSignalRService\<close>) receives tool
  arguments as deserialised JSON (\<^verbatim>\<open>unknown\<close> in the source). A missing argument is
  \<^verbatim>\<open>undefined\<close>. An object is kept as its list of members, in order.
\<close>

datatype json =
    JNull
  | JUndefined
  | JBool bool
  | JNumber real
  | JString string
  | JArray "json list"
  | JObject "(string \<times> json) list"

text \<open>\<^verbatim>\<open>typeof v\<close> and \<^verbatim>\<open>Array.isArray(v)\<close> on these values.\<close>

fun js_typeof :: "json \<Rightarrow> string" where
  "js_typeof JNull = ''object''"
| "js_typeof JUndefined = ''undefined''"
| "js_typeof (JBool b) = ''boolean''"
| "js_typeof (JNumber n) = ''number''"
| "js_typeof (JString s) = ''string''"
| "js_typeof (JArray xs) = ''object''"
| "js_typeof (JObject kvs) = ''object''"

fun isArray :: "json \<Rightarrow> bool" where
  "isArray (JArray xs) = True"
| "isArray v = False"

text \<open>
  A thrown value: an \<^verbatim>\<open>Error\<close> object with its message, or any other value, kept as
  the text \<^verbatim>\<open>String(value)\<close> gives for it.
\<close>

datatype js_exn = Error string | NonError string

text \<open>\<^verbatim>\<open>error instanceof Error ? error.message : String(error)\<close>\<close>

fun message_of :: "js_exn \<Rightarrow> string" where
  "message_of (Error m) = m"
| "message_of (NonError s) = s"

text \<open>\<^verbatim>\<open>error instanceof Error ? error : new Error(String(error))\<close>\<close>

fun as_Error :: "js_exn \<Rightarrow> js_exn" where
  "as_Error (Error m) = Error m"
| "as_Error (NonError s) = Error s"

section \<open>Numbers\<close>

text \<open>
  The numbers of the source are double-precision values. The delays the service
  computes are products of an integer and a power of two, so they are integers,
  \<^verbatim>\<open>Infinity\<close>, \<^verbatim>\<open>-Infinity\<close> or \<^verbatim>\<open>NaN\<close>. \<^verbatim>\<open>Math.pow(2, k)\<close> for a natural number
  \<open>k\<close> is the power itself while it has a double (below \<open>2 ^ 1024\<close>) and
  \<^verbatim>\<open>Infinity\<close> from there on. The product of an integer that a double holds and a power
  of two is exact while it stays below \<open>2 ^ 1024\<close> in size, and overflows to an
  infinity otherwise; zero times \<^verbatim>\<open>Infinity\<close> is \<^verbatim>\<open>NaN\<close>.
\<close>

datatype js_number = Finite int | PosInfinity | NegInfinity | NaN

definition js_pow2 :: "nat \<Rightarrow> js_number" where
  "js_pow2 k = (if k < 1024 then Finite (2 ^ k) else PosInfinity)"

fun js_times :: "int \<Rightarrow> js_number \<Rightarrow> js_number" where
  "js_times b (Finite q) =
     (if \<bar>b * q\<bar> < 2 ^ 1024 then Finite (b * q)
      else if 0 < b * q then PosInfinity else NegInfinity)"
| "js_times b PosInfinity =
     (if b = 0 then NaN else if 0 < b then PosInfinity else NegInfinity)"
| "js_times b NegInfinity =
     (if b = 0 then NaN else if 0 < b then NegInfinity else PosInfinity)"
| "js_times b NaN = NaN"

section \<open>Configuration\<close>

datatype LogLevel = TRACE | DEBUG | INFO | WARN | ERROR | FATAL | OFF

type_synonym int32 = "32 word"

text \<open>
  The enumeration \<^verbatim>\<open>TransportType\<close> is declared in \<^verbatim>\<open>types.ts\<close>, which is not among the
  sources; its three members are taken as parameters. The bitwise operators of the
  source work on 32-bit integers.
\<close>

record TransportTypeEnum =
  WebSockets :: int32
  ServerSentEvents :: int32
  LongPolling :: int32

text \<open>The members of \<^verbatim>\<open>signalR.HttpTransportType\<close> that the source names.\<close>

definition HttpTransportType_None :: int32 where
  "HttpTransportType_None = 0"

definition HttpTransportType_WebSockets :: int32 where
  "HttpTransportType_WebSockets = 1"

definition HttpTransportType_ServerSentEvents :: int32 where
  "HttpTransportType_ServerSentEvents = 2"

definition HttpTransportType_LongPolling :: int32 where
  "HttpTransportType_LongPolling = 4"

record TransportOptions =
  hubPath :: string
  maxRetryAttempts :: int
  baseRetryDelayMs :: int
  enableLogging :: bool
  logLevel :: LogLevel
  transportTypes :: int32

text \<open>\<^verbatim>\<open>Partial<TransportOptions>\<close>: every option may be left out.\<close>

record PartialTransportOptions =
  p_hubPath :: "string option"
  p_maxRetryAttempts :: "int option"
  p_baseRetryDelayMs :: "int option"
  p_enableLogging :: "bool option"
  p_logLevel :: "LogLevel option"
  p_transportTypes :: "int32 option"

text \<open>The defaults of the constructor, overridden by the options given.\<close>

definition merge_config :: "TransportTypeEnum \<Rightarrow> PartialTransportOptions \<Rightarrow> TransportOptions" where
  "merge_config T p =
     \<lparr> hubPath = (case p_hubPath p of None \<Rightarrow> ''/mcptools'' | Some v \<Rightarrow> v),
       maxRetryAttempts = (case p_maxRetryAttempts p of None \<Rightarrow> 10 | Some v \<Rightarrow> v),
       baseRetryDelayMs = (case p_baseRetryDelayMs p of None \<Rightarrow> 1000 | Some v \<Rightarrow> v),
       enableLogging = (case p_enableLogging p of None \<Rightarrow> False | Some v \<Rightarrow> v),
       logLevel = (case p_logLevel p of None \<Rightarrow> INFO | Some v \<Rightarrow> v),
       transportTypes =
         (case p_transportTypes p of
            None \<Rightarrow> WebSockets T OR ServerSentEvents T OR LongPolling T
          | Some v \<Rightarrow> v) \<rparr>"

section \<open>Transport selection\<close>

text \<open>
  \<^verbatim>\<open>mapTransportType\<close>: starting from \<^verbatim>\<open>None\<close>, each of the three tests
  \<^verbatim>\<open>if (transportType & TransportType.X)\<close> (true when the conjunction is not zero) adds
  the library's flag with \<^verbatim>\<open>result |= ...\<close>.
\<close>

definition mapTransportType :: "TransportTypeEnum \<Rightarrow> int32 \<Rightarrow> int32" where
  "mapTransportType T transportType =
     (let result = HttpTransportType_None;
          result = (if transportType AND WebSockets T \<noteq> 0
                    then result OR HttpTransportType_WebSockets else result);
          result = (if transportType AND ServerSentEvents T \<noteq> 0
                    then result OR HttpTransportType_ServerSentEvents else result);
          result = (if transportType AND LongPolling T \<noteq> 0
                    then result OR HttpTransportType_LongPolling else result)
      in result)"

section \<open>What the service does to the outside\<close>

text \<open>
  Every call the service makes on its collaborators is recorded, in order: a call of
  the logger (when logging is enabled it is the console, otherwise a logger whose four
  methods do nothing), \<^verbatim>\<open>setTimeout\<close> with the delay it is given, \<^verbatim>\<open>start()\<close> and
  \<^verbatim>\<open>stop()\<close> of the hub connection, and \<^verbatim>\<open>start(tools)\<close> of the controller.
\<close>

datatype console_method = ConsoleLog | ConsoleError | ConsoleWarn | ConsoleInfo

datatype msg_part =
  Txt string | Num int | Dbl js_number | Exn js_exn | ExnOpt "js_exn option" | Val json

record ToolStartConfig =
  toolId :: string
  params :: json

datatype effect =
    Console console_method "msg_part list"
  | SetTimeout js_number
  | HubStart
  | HubStop
  | ControllerStart "ToolStartConfig list"

text \<open>
  \<^verbatim>\<open>this.logger = this.config.enableLogging ? console : this.createSilentLogger()\<close>
\<close>

definition logger :: "TransportOptions \<Rightarrow> console_method \<Rightarrow> msg_part list \<Rightarrow> effect list" where
  "logger cfg m parts = (if enableLogging cfg then [Console m parts] else [])"

text \<open>
  Modelled from the spec: \<^verbatim>\<open>CallToolResult\<close> is declared in \<^verbatim>\<open>types.ts\<close>, which is not
  among the sources. The result of an invocation is
  \<^verbatim>\<open>{ success: bool, content?: result payload, error?: message }\<close>.
\<close>

record CallToolResult =
  success :: bool
  content :: "json option"
  error :: "string option"

text \<open>
  Modelled from the spec: \<^verbatim>\<open>createErrorResult\<close> is declared in \<^verbatim>\<open>types.ts\<close>, which is
  not among the sources. An exception is converted into
  \<^verbatim>\<open>{success:false, error:<message>}\<close>.
\<close>

definition createErrorResult :: "js_exn \<Rightarrow> CallToolResult" where
  "createErrorResult e = \<lparr> success = False, content = None, error = Some (message_of e) \<rparr>"

section \<open>The hub connection of the transport library\<close>

datatype HubConnectionState = Disconnected | Connecting | Connected | Disconnecting | Reconnecting

text \<open>The members of \<^verbatim>\<open>signalR.LogLevel\<close> that the source names.\<close>

datatype SignalRLogLevel =
  Trace | Debug | Information | Warning | SignalRError | SignalRNone

record HubConnection =
  state :: HubConnectionState
  connectionId :: "string option"
  transport :: int32
  logging :: SignalRLogLevel

text \<open>
  The library is not part of the repository. What \<^verbatim>\<open>await connection.start()\<close> does is
  an input of the model: the promise resolves, and the connection is then
  \<^verbatim>\<open>Connected\<close> under a new identifier, or it rejects with a thrown value and leaves
  the connection as it was. The wait is taken as one step.
\<close>

datatype start_outcome = Resolved string | Rejected js_exn

fun hub_start :: "start_outcome \<Rightarrow> HubConnection \<Rightarrow> js_exn option \<times> HubConnection" where
  "hub_start (Resolved cid) c = (None, c\<lparr> state := Connected, connectionId := Some cid \<rparr>)"
| "hub_start (Rejected e) c = (Some e, c)"

text \<open>\<^verbatim>\<open>await connection.stop()\<close>: resolves with the connection closed, or rejects.\<close>

fun hub_stop :: "js_exn option \<Rightarrow> HubConnection \<Rightarrow> js_exn option \<times> HubConnection" where
  "hub_stop None c = (None, c\<lparr> state := Disconnected, connectionId := None \<rparr>)"
| "hub_stop (Some e) c = (Some e, c)"

text \<open>\<^verbatim>\<open>mapLogLevel\<close>\<close>

fun mapLogLevel :: "LogLevel \<Rightarrow> SignalRLogLevel" where
  "mapLogLevel TRACE = Trace"
| "mapLogLevel DEBUG = Debug"
| "mapLogLevel INFO = Information"
| "mapLogLevel WARN = Warning"
| "mapLogLevel ERROR = SignalRError"
| "mapLogLevel FATAL = SignalRError"
| "mapLogLevel OFF = SignalRNone"

section \<open>The service\<close>

text \<open>
  The controller is the interface \<^verbatim>\<open>WebInteractMCPController\<close>: \<^verbatim>\<open>start(tools)\<close>
  resolves with a list of results (an entry may be missing) or rejects.
\<close>

type_synonym controller = "ToolStartConfig list \<Rightarrow> js_exn + CallToolResult option list"

text \<open>
  Modelled from the spec: the class \<^verbatim>\<open>ToolRegistry\<close> is declared in
  \<^verbatim>\<open>tool-registry.ts\<close>, which is not among the sources. The catalog is an in-memory
  mapping from tool identifier to tool definition.
\<close>

type_synonym ToolRegistry = "string \<rightharpoonup> json"

record service =
  config :: TransportOptions
  connection :: "HubConnection option"
  reconnectAttempts :: nat
  isManuallyDisconnected :: bool
  mcpController :: "controller option"
  toolRegistry :: ToolRegistry

text \<open>
  \<^verbatim>\<open>setupConnection\<close> builds the hub connection with the mapped transports and log
  level; the library hands it out disconnected. The retry policy given to the builder
  with \<^verbatim>\<open>withAutomaticReconnect\<close> is used by the library only; it adds
  \<^verbatim>\<open>Math.random() * 1000\<close> in floating point and is not part of this model. The
  constructor merges the configuration and sets the connection up.
\<close>

definition setupConnection :: "TransportTypeEnum \<Rightarrow> TransportOptions \<Rightarrow> HubConnection" where
  "setupConnection T cfg =
     \<lparr> state = Disconnected, connectionId = None,
       transport = mapTransportType T (transportTypes cfg),
       logging = mapLogLevel (logLevel cfg) \<rparr>"

definition constructor ::
  "TransportTypeEnum \<Rightarrow> controller option \<Rightarrow> ToolRegistry \<Rightarrow> PartialTransportOptions \<Rightarrow> service" where
  "constructor T ctl reg p =
     \<lparr> config = merge_config T p,
       connection = Some (setupConnection T (merge_config T p)),
       reconnectAttempts = 0,
       isManuallyDisconnected = False,
       mcpController = ctl,
       toolRegistry = reg \<rparr>"

text \<open>
  The getters \<^verbatim>\<open>getConnectionId\<close> (\<^verbatim>\<open>this.connection?.connectionId || null\<close>, so an
  empty identifier reads as none), \<^verbatim>\<open>isConnected\<close> and \<^verbatim>\<open>connectionState\<close>.
\<close>

definition getConnectionId :: "service \<Rightarrow> string option" where
  "getConnectionId s =
     (case connection s of
        None \<Rightarrow> None
      | Some c \<Rightarrow>
          (case connectionId c of
             None \<Rightarrow> None
           | Some i \<Rightarrow> if i = [] then None else Some i))"

definition isConnected :: "service \<Rightarrow> bool" where
  "isConnected s = (case connection s of None \<Rightarrow> False | Some c \<Rightarrow> state c = Connected)"

definition connectionState :: "service \<Rightarrow> HubConnectionState option" where
  "connectionState s = (case connection s of None \<Rightarrow> None | Some c \<Rightarrow> Some (state c))"

text \<open>
  \<^verbatim>\<open>start()\<close>. The result is what the call throws (\<open>Inl\<close>) or that it returns, the
  service afterwards, and the calls made.
\<close>

definition start :: "start_outcome \<Rightarrow> service \<Rightarrow> (js_exn + unit) \<times> service \<times> effect list" where
  "start oc s =
     (case connection s of
        None \<Rightarrow> (Inl (Error ''SignalR connection not initialized''), s, [])
      | Some c \<Rightarrow>
          if state c = Connected then
            (Inr (), s, logger (config s) ConsoleLog [Txt ''SignalR connection already established''])
          else if state c = Connecting then
            (Inr (), s,
             logger (config s) ConsoleLog [Txt ''SignalR connection attempt already in progress''])
          else
            (let s1 = s\<lparr> isManuallyDisconnected := False \<rparr> in
             case hub_start oc c of
               (None, c') \<Rightarrow>
                 (Inr (),
                  s1\<lparr> connection := Some c', reconnectAttempts := 0 \<rparr>,
                  [HubStart] @
                  logger (config s) ConsoleLog [Txt ''SignalR connection started successfully''])
             | (Some e, c') \<Rightarrow>
                 (Inl (Error (''Failed to start SignalR connection: '' @ message_of e)),
                  s1\<lparr> connection := Some c' \<rparr>,
                  [HubStart] @
                  logger (config s) ConsoleError [Txt ''Error starting SignalR connection:'', Exn e])))"

text \<open>\<^verbatim>\<open>stop()\<close>: the flag is set before the connection is asked to stop.\<close>

definition stop :: "js_exn option \<Rightarrow> service \<Rightarrow> (js_exn + unit) \<times> service \<times> effect list" where
  "stop oc s =
     (case connection s of
        None \<Rightarrow> (Inr (), s, [])
      | Some c \<Rightarrow>
          (let s1 = s\<lparr> isManuallyDisconnected := True \<rparr> in
           case hub_stop oc c of
             (None, c') \<Rightarrow>
               (Inr (), s1\<lparr> connection := Some c' \<rparr>,
                [HubStop] @ logger (config s) ConsoleLog [Txt ''SignalR connection stopped''])
           | (Some e, c') \<Rightarrow> (Inl e, s1\<lparr> connection := Some c' \<rparr>, [HubStop])))"

text \<open>\<^verbatim>\<open>dispose()\<close>: the flag is set, the connection is asked to stop and is forgotten.\<close>

definition dispose :: "js_exn option \<Rightarrow> service \<Rightarrow> service \<times> effect list" where
  "dispose oc s =
     (let s1 = s\<lparr> isManuallyDisconnected := True \<rparr> in
      case connection s1 of
        None \<Rightarrow> (s1, [])
      | Some c \<Rightarrow>
          (s1\<lparr> connection := None \<rparr>,
           [HubStop] @
           (case oc of
              None \<Rightarrow> []
            | Some e \<Rightarrow>
                logger (config s) ConsoleError
                  [Txt ''Error stopping connection during disposal:'', Exn e])))"

section \<open>Starting, in two halves\<close>

text \<open>
  \<^verbatim>\<open>start()\<close> waits at \<^verbatim>\<open>await this.connection.start()\<close>, and other events can come in
  between. The first half runs up to the wait: it throws, or returns without an attempt
  (\<open>Inr False\<close>), or clears the flag, calls the connection and waits (\<open>Inr True\<close>). The
  library moves a disconnected connection to \<^verbatim>\<open>Connecting\<close> at once. The second half
  runs when the promise settles, on the service as it is by then: the library has moved
  the connection to \<^verbatim>\<open>Connected\<close>, or back from \<^verbatim>\<open>Connecting\<close> to \<^verbatim>\<open>Disconnected\<close>.
\<close>

definition hub_start_begin :: "HubConnection \<Rightarrow> HubConnection" where
  "hub_start_begin c = (if state c = Disconnected then c\<lparr> state := Connecting \<rparr> else c)"

fun hub_start_settled :: "start_outcome \<Rightarrow> HubConnection \<Rightarrow> HubConnection" where
  "hub_start_settled (Resolved cid) c = c\<lparr> state := Connected, connectionId := Some cid \<rparr>"
| "hub_start_settled (Rejected e) c =
     (if state c = Connecting then c\<lparr> state := Disconnected \<rparr> else c)"

definition start_begin :: "service \<Rightarrow> (js_exn + bool) \<times> service \<times> effect list" where
  "start_begin s =
     (case connection s of
        None \<Rightarrow> (Inl (Error ''SignalR connection not initialized''), s, [])
      | Some c \<Rightarrow>
          if state c = Connected then
            (Inr False, s,
             logger (config s) ConsoleLog [Txt ''SignalR connection already established''])
          else if state c = Connecting then
            (Inr False, s,
             logger (config s) ConsoleLog [Txt ''SignalR connection attempt already in progress''])
          else
            (Inr True,
             s\<lparr> isManuallyDisconnected := False, connection := Some (hub_start_begin c) \<rparr>,
             [HubStart]))"

definition start_finish :: "start_outcome \<Rightarrow> service \<Rightarrow> (js_exn + unit) \<times> service \<times> effect list" where
  "start_finish oc s =
     (let s1 = s\<lparr> connection := map_option (hub_start_settled oc) (connection s) \<rparr> in
      case oc of
        Resolved cid \<Rightarrow>
          (Inr (), s1\<lparr> reconnectAttempts := 0 \<rparr>,
           logger (config s) ConsoleLog [Txt ''SignalR connection started successfully''])
      | Rejected e \<Rightarrow>
          (Inl (Error (''Failed to start SignalR connection: '' @ message_of e)), s1,
           logger (config s) ConsoleError [Txt ''Error starting SignalR connection:'', Exn e]))"

section \<open>Reconnection\<close>

text \<open>
  \<^verbatim>\<open>scheduleReconnect()\<close>: the service's own retry timer. The function has no
  \<^verbatim>\<open>throw\<close>; it returns the service and the calls made. The delay is
  \<^verbatim>\<open>this.config.baseRetryDelayMs * Math.pow(2, this.reconnectAttempts - 1)\<close>, where the
  counter has just been raised and is at least 1.
\<close>

definition scheduleReconnect :: "service \<Rightarrow> service \<times> effect list" where
  "scheduleReconnect s =
     (if isManuallyDisconnected s \<or> int (reconnectAttempts s) \<ge> maxRetryAttempts (config s) then
        (s, logger (config s) ConsoleError
              [Txt ''Max reconnection attempts ('', Num (maxRetryAttempts (config s)),
               Txt '') reached''])
      else
        (let s1 = s\<lparr> reconnectAttempts := reconnectAttempts s + 1 \<rparr>;
             delay = js_times (baseRetryDelayMs (config s1)) (js_pow2 (reconnectAttempts s1 - 1))
         in (s1,
             logger (config s1) ConsoleLog
               [Txt ''Scheduling reconnection attempt '', Num (int (reconnectAttempts s1)),
                Txt '' in '', Dbl delay, Txt ''ms''] @
             [SetTimeout delay])))"

text \<open>
  The function given to \<^verbatim>\<open>setTimeout\<close>, in the pieces between which other events can
  come in. When the timer fires, the flag is tested and \<^verbatim>\<open>this.start()\<close> runs up to its
  wait; \<open>True\<close> says that the callback is now waiting for the connection. When the
  promise settles, \<^verbatim>\<open>start()\<close> finishes, and what it throws is caught: the failure is
  logged and \<^verbatim>\<open>scheduleReconnect()\<close> is called, which reads the flag as it is by then.
\<close>

definition timerCatch :: "js_exn \<Rightarrow> service \<Rightarrow> service \<times> effect list" where
  "timerCatch e s =
     (let (s2, fx2) = scheduleReconnect s
      in (s2,
          logger (config s) ConsoleError
            [Txt ''Reconnection attempt '', Num (int (reconnectAttempts s)),
             Txt '' failed:'', Exn e] @
          fx2))"

definition timerFired :: "service \<Rightarrow> bool \<times> service \<times> effect list" where
  "timerFired s =
     (if \<not> isManuallyDisconnected s then
        (case start_begin s of
           (Inr waiting, s1, fx) \<Rightarrow> (waiting, s1, fx)
         | (Inl e, s1, fx) \<Rightarrow>
             (let (s2, fx2) = timerCatch e s1 in (False, s2, fx @ fx2)))
      else (False, s, []))"

definition timerSettled :: "start_outcome \<Rightarrow> service \<Rightarrow> service \<times> effect list" where
  "timerSettled oc s =
     (case start_finish oc s of
        (Inr u, s1, fx) \<Rightarrow> (s1, fx)
      | (Inl e, s1, fx) \<Rightarrow>
          (let (s2, fx2) = timerCatch e s1 in (s2, fx @ fx2)))"

text \<open>The handlers of \<^verbatim>\<open>onclose\<close>, \<^verbatim>\<open>onreconnecting\<close> and \<^verbatim>\<open>onreconnected\<close>.\<close>

definition onclose :: "js_exn option \<Rightarrow> service \<Rightarrow> service \<times> effect list" where
  "onclose err s =
     (let fx = (case err of
                  Some e \<Rightarrow>
                    logger (config s) ConsoleError
                      [Txt ''SignalR connection closed with error:'', Exn e]
                | None \<Rightarrow> logger (config s) ConsoleLog [Txt ''SignalR connection closed''])
      in if \<not> isManuallyDisconnected s then
           (let (s1, fx1) = scheduleReconnect s in (s1, fx @ fx1))
         else (s, fx))"

definition onreconnecting :: "js_exn option \<Rightarrow> service \<Rightarrow> service \<times> effect list" where
  "onreconnecting err s =
     (s, logger (config s) ConsoleWarn [Txt ''SignalR reconnecting...'', ExnOpt err])"

definition onreconnected :: "string \<Rightarrow> service \<Rightarrow> service \<times> effect list" where
  "onreconnected cid s =
     (s\<lparr> reconnectAttempts := 0 \<rparr>,
      logger (config s) ConsoleLog [Txt ''SignalR reconnected with ID: '', Txt cid])"

section \<open>Tool invocation\<close>

text \<open>\<^verbatim>\<open>sanitizeParameters\<close>, with the warning it logs.\<close>

definition sanitizeParameters :: "TransportOptions \<Rightarrow> json \<Rightarrow> json \<times> effect list" where
  "sanitizeParameters cfg ps =
     (if ps = JNull \<or> ps = JUndefined then (JObject [], [])
      else if js_typeof ps = ''object'' \<and> \<not> isArray ps then (ps, [])
      else (JObject [],
            logger cfg ConsoleWarn
              [Txt ''Invalid parameters type, using empty object:'', Txt (js_typeof ps)]))"

text \<open>
  \<^verbatim>\<open>invokeTool(toolName, params = {})\<close>: the default value stands in for a missing
  argument. The first \<^verbatim>\<open>throw\<close> is outside the \<^verbatim>\<open>try\<close>; what the controller throws is
  caught inside.
\<close>

definition invokeTool :: "service \<Rightarrow> string \<Rightarrow> json \<Rightarrow> (js_exn + CallToolResult) \<times> effect list" where
  "invokeTool s toolName ps0 =
     (case mcpController s of
        None \<Rightarrow> (Inl (Error ''MCP Controller not set. Call setMCPController() first.''), [])
      | Some ctl \<Rightarrow>
          (let ps = (if ps0 = JUndefined then JObject [] else ps0);
               (sanitizedParams, fx) = sanitizeParameters (config s) ps;
               toolConfig = \<lparr> toolId = toolName, params = sanitizedParams \<rparr>
           in case ctl [toolConfig] of
                Inr results \<Rightarrow>
                  (case results of
                     Some result # rest \<Rightarrow> (Inr result, fx @ [ControllerStart [toolConfig]])
                   | _ \<Rightarrow>
                       (Inr (createErrorResult (Error ''No result returned from tool execution'')),
                        fx @ [ControllerStart [toolConfig]]))
              | Inl e \<Rightarrow>
                  (Inr (createErrorResult (as_Error e)),
                   fx @ [ControllerStart [toolConfig]] @
                   logger (config s) ConsoleError
                     [Txt ''Tool execution failed for '', Txt toolName, Txt '':'', Exn e])))"

text \<open>
  The handler registered for \<^verbatim>\<open>InvokeTool\<close>. What it returns goes back to the peer; a
  value it threw (\<open>Inl\<close>) would cross the channel as a fault.
\<close>

definition onInvokeTool :: "service \<Rightarrow> string \<Rightarrow> json \<Rightarrow> (js_exn + CallToolResult) \<times> effect list" where
  "onInvokeTool s toolName toolArguments =
     (let fx0 = logger (config s) ConsoleLog
                  [Txt ''Received tool invocation request: '', Txt toolName, Val toolArguments]
      in case invokeTool s toolName toolArguments of
           (Inr r, fx) \<Rightarrow> (Inr r, fx0 @ fx)
         | (Inl e, fx) \<Rightarrow>
             (Inr (createErrorResult (as_Error e)),
              fx0 @ fx @ logger (config s) ConsoleError [Txt ''Error executing tool:'', Exn e]))"

section \<open>The service over time\<close>

text \<open>
  What happens to a service, one event at a time: the application calls a public
  method; a \<^verbatim>\<open>connection.start()\<close> that a \<^verbatim>\<open>start()\<close> of the application or of a retry
  timer is waiting for settles; the library reports a close, a reconnecting or a
  reconnected connection (it moves the connection to its new state, then runs the
  handler); the library changes the state of the connection without telling the
  service; a pending timer fires; the peer sends a request. What follows the wait in
  \<^verbatim>\<open>stop()\<close>, in the catch of \<^verbatim>\<open>dispose()\<close> and in the handler of \<^verbatim>\<open>InvokeTool\<close> reads and
  writes no field of the service, and is recorded with the call.

  A run keeps the service, the delays of the timers set and not yet fired (any of them
  may fire next), who is waiting for a \<^verbatim>\<open>connection.start()\<close> to settle (any of them may
  settle next), and every call made so far.
\<close>

datatype caller = ByApplication | ByTimer

datatype event =
    CallStart
  | StartSettled nat start_outcome
  | CallStop "js_exn option"
  | CallDispose "js_exn option"
  | HubClosed "js_exn option"
  | HubReconnecting "js_exn option"
  | HubReconnected string
  | HubMoved HubConnectionState "string option"
  | TimerFired nat
  | PeerInvokeTool string json

record world =
  svc :: service
  timers :: "js_number list"
  starts :: "caller list"
  trace :: "effect list"

fun scheduled :: "effect list \<Rightarrow> js_number list" where
  "scheduled [] = []"
| "scheduled (SetTimeout d # fx) = d # scheduled fx"
| "scheduled (x # fx) = scheduled fx"

fun hub_starts :: "effect list \<Rightarrow> nat" where
  "hub_starts [] = 0"
| "hub_starts (HubStart # fx) = Suc (hub_starts fx)"
| "hub_starts (x # fx) = hub_starts fx"

fun controller_calls :: "effect list \<Rightarrow> ToolStartConfig list list" where
  "controller_calls [] = []"
| "controller_calls (ControllerStart ts # fx) = ts # controller_calls fx"
| "controller_calls (x # fx) = controller_calls fx"

definition commit :: "service \<times> effect list \<Rightarrow> world \<Rightarrow> world" where
  "commit r w =
     w\<lparr> svc := fst r, timers := timers w @ scheduled (snd r), trace := trace w @ snd r \<rparr>"

definition waiting :: "bool \<Rightarrow> caller \<Rightarrow> world \<Rightarrow> world" where
  "waiting b who w = (if b then w\<lparr> starts := starts w @ [who] \<rparr> else w)"

definition hub_moved :: "HubConnectionState \<Rightarrow> string option \<Rightarrow> service \<Rightarrow> service" where
  "hub_moved st cid s =
     (case connection s of
        None \<Rightarrow> s
      | Some c \<Rightarrow> s\<lparr> connection := Some (c\<lparr> state := st, connectionId := cid \<rparr>) \<rparr>)"

fun step :: "event \<Rightarrow> world \<Rightarrow> world" where
  "step CallStart w =
     (case start_begin (svc w) of
        (Inr b, s1, fx) \<Rightarrow> waiting b ByApplication (commit (s1, fx) w)
      | (Inl e, s1, fx) \<Rightarrow> commit (s1, fx) w)"
| "step (StartSettled k oc) w =
     (if k < length (starts w) then
        (case starts w ! k of
           ByApplication \<Rightarrow>
             commit (snd (start_finish oc (svc w)))
               (w\<lparr> starts := take k (starts w) @ drop (Suc k) (starts w) \<rparr>)
         | ByTimer \<Rightarrow>
             commit (timerSettled oc (svc w))
               (w\<lparr> starts := take k (starts w) @ drop (Suc k) (starts w) \<rparr>))
      else w)"
| "step (CallStop oc) w = commit (snd (stop oc (svc w))) w"
| "step (CallDispose oc) w = commit (dispose oc (svc w)) w"
| "step (HubClosed err) w = commit (onclose err (hub_moved Disconnected None (svc w))) w"
| "step (HubReconnecting err) w =
     commit (onreconnecting err
       (hub_moved Reconnecting (case connection (svc w) of None \<Rightarrow> None | Some c \<Rightarrow> connectionId c)
          (svc w))) w"
| "step (HubReconnected cid) w = commit (onreconnected cid (hub_moved Connected (Some cid) (svc w))) w"
| "step (HubMoved st cid) w = w\<lparr> svc := hub_moved st cid (svc w) \<rparr>"
| "step (TimerFired k) w =
     (if k < length (timers w) then
        (case timerFired (svc w) of
           (b, s1, fx) \<Rightarrow>
             waiting b ByTimer
               (commit (s1, fx) (w\<lparr> timers := take k (timers w) @ drop (Suc k) (timers w) \<rparr>)))
      else w)"
| "step (PeerInvokeTool toolName toolArguments) w =
     commit (svc w, snd (onInvokeTool (svc w) toolName toolArguments)) w"

fun run :: "event list \<Rightarrow> world \<Rightarrow> world" where
  "run [] w = w"
| "run (e # es) w = run es (step e w)"

definition boot :: "service \<Rightarrow> world" where
  "boot s = \<lparr> svc = s, timers = [], starts = [], trace = [] \<rparr>"

fun is_CallStart :: "event \<Rightarrow> bool" where
  "is_CallStart CallStart = True"
| "is_CallStart e = False"

text \<open>
  The events after which the attempt counter may be back at zero: the connection
  attempt of a \<^verbatim>\<open>start()\<close>, called by the application or by a retry timer, resolves, or
  the library reports a reconnection.
\<close>

fun may_reset :: "event \<Rightarrow> bool" where
  "may_reset (StartSettled k (Resolved cid)) = True"
| "may_reset (HubReconnected cid) = True"
| "may_reset e = False"

section \<open>Concrete services\<close>

definition example_TransportType :: TransportTypeEnum where
  "example_TransportType = \<lparr> WebSockets = 1, ServerSentEvents = 2, LongPolling = 4 \<rparr>"

definition no_options :: PartialTransportOptions where
  "no_options =
     \<lparr> p_hubPath = None, p_maxRetryAttempts = None, p_baseRetryDelayMs = None,
       p_enableLogging = None, p_logLevel = None, p_transportTypes = None \<rparr>"

definition one_retry_logged :: PartialTransportOptions where
  "one_retry_logged = no_options\<lparr> p_maxRetryAttempts := Some 1, p_enableLogging := Some True \<rparr>"

definition always_succeeds :: controller where
  "always_succeeds tools = Inr [Some \<lparr> success = True, content = None, error = None \<rparr>]"

definition returns_nothing :: controller where
  "returns_nothing tools = Inr []"

definition returns_hole :: controller where
  "returns_hole tools = Inr [None]"

definition always_throws :: controller where
  "always_throws tools = Inl (NonError ''boom'')"

definition fresh_service :: service where
  "fresh_service = constructor example_TransportType None Map.empty no_options"

definition fresh_hub :: HubConnection where
  "fresh_hub = setupConnection example_TransportType (merge_config example_TransportType no_options)"

definition connected_service :: service where
  "connected_service =
     fresh_service\<lparr> connection :=
       Some (fresh_hub\<lparr> state := Connected, connectionId := Some ''c1'' \<rparr>) \<rparr>"

definition connecting_service :: service where
  "connecting_service =
     fresh_service\<lparr> connection := Some (fresh_hub\<lparr> state := Connecting \<rparr>) \<rparr>"

definition not_disconnected :: js_exn where
  "not_disconnected = Error ''Cannot start a HubConnection that is not in the Disconnected state.''"


text \<open>
  The connection closes and a retry timer is set; the application reconnects by itself
  before the timer fires; the connection drops and the library starts reconnecting;
  the timer fires, and \<^verbatim>\<open>start()\<close> of a connection that is reconnecting is rejected; so
  is the retry after it.
\<close>

definition exhausting_run :: "event list" where
  "exhausting_run =
     [CallStart, StartSettled 0 (Resolved ''c1''), HubClosed None,
      CallStart, StartSettled 0 (Resolved ''c2''), HubReconnecting None,
      TimerFired 0, StartSettled 0 (Rejected not_disconnected),
      TimerFired 0, StartSettled 0 (Rejected not_disconnected)]"

text \<open>
  The connection closes and a retry timer is set; the timer fires and the retry waits
  for the connection.
\<close>

definition retry_in_flight :: "event list" where
  "retry_in_flight =
     [CallStart, StartSettled 0 (Resolved ''c1''), HubClosed None, TimerFired 0]"

definition one_retry_service :: service where
  "one_retry_service = constructor example_TransportType None Map.empty one_retry_logged"

section \<open>Reading the recorded calls\<close>

lemma scheduled_append: "scheduled (xs @ ys) = scheduled xs @ scheduled ys"
  by (induction xs rule: scheduled.induct) simp_all

lemma hub_starts_append: "hub_starts (xs @ ys) = hub_starts xs + hub_starts ys"
  by (induction xs rule: hub_starts.induct) simp_all

lemma controller_calls_append:
  "controller_calls (xs @ ys) = controller_calls xs @ controller_calls ys"
  by (induction xs rule: controller_calls.induct) simp_all

lemma scheduled_logger: "scheduled (logger cfg m parts) = []"
  by (simp add: logger_def)

lemma hub_starts_logger: "hub_starts (logger cfg m parts) = 0"
  by (simp add: logger_def)

lemma controller_calls_logger: "controller_calls (logger cfg m parts) = []"
  by (simp add: logger_def)

lemmas fx_simps =
  scheduled_append hub_starts_append controller_calls_append
  scheduled_logger hub_starts_logger controller_calls_logger

section \<open>Transport selection is a homomorphism\<close>

lemma and_or_ne0: "((a OR b) AND (x::int32) \<noteq> 0) = (a AND x \<noteq> 0 \<or> b AND x \<noteq> 0)"
  by (simp add: bit.conj_disj_distrib2 or_eq_0_iff)

lemma mask_first: "(t AND (w OR s OR l)) AND (w::int32) = t AND w"
  by (auto simp add: bit_eq_iff bit_and_iff bit_or_iff)

lemma mask_second: "(t AND (w OR s OR l)) AND (s::int32) = t AND s"
  by (auto simp add: bit_eq_iff bit_and_iff bit_or_iff)

lemma mask_third: "(t AND (w OR s OR l)) AND (l::int32) = t AND l"
  by (auto simp add: bit_eq_iff bit_and_iff bit_or_iff)

lemma mapTransportType_or:
  "mapTransportType T (a OR b) = mapTransportType T a OR mapTransportType T b"
  unfolding mapTransportType_def Let_def and_or_ne0
  by (simp add: HttpTransportType_None_def HttpTransportType_WebSockets_def
        HttpTransportType_ServerSentEvents_def HttpTransportType_LongPolling_def)

lemma mapTransportType_masked:
  "mapTransportType T (t AND (WebSockets T OR ServerSentEvents T OR LongPolling T)) =
   mapTransportType T t"
  unfolding mapTransportType_def Let_def mask_first mask_second mask_third by (rule refl)

text \<open>
  C9. \<^verbatim>\<open>mapTransportType\<close> maps the bitwise OR of two preferences to the bitwise OR of
  their images, maps the empty preference to \<^verbatim>\<open>None\<close>, and depends on its argument only
  through the bits of \<^verbatim>\<open>WebSockets\<close>, \<^verbatim>\<open>ServerSentEvents\<close> and \<^verbatim>\<open>LongPolling\<close>: clearing
  every other bit does not change the result. This holds whatever values the three
  members of \<^verbatim>\<open>TransportType\<close> have.
\<close>

theorem mapTransportType_homomorphism:
  "mapTransportType T (a OR b) = mapTransportType T a OR mapTransportType T b
   \<and> mapTransportType T 0 = HttpTransportType_None
   \<and> mapTransportType T (t AND (WebSockets T OR ServerSentEvents T OR LongPolling T)) =
       mapTransportType T t"
  by (simp add: mapTransportType_or mapTransportType_masked) (simp add: mapTransportType_def)

section \<open>Sanitizing arguments\<close>

text \<open>
  C5. \<^verbatim>\<open>sanitizeParameters\<close> returns a value for every input: the input itself when it
  is an object that is not an array, and the empty object for \<^verbatim>\<open>null\<close>, \<^verbatim>\<open>undefined\<close>,
  arrays and primitives. In particular \<^verbatim>\<open>null\<close> and \<^verbatim>\<open>[1,2]\<close> give \<^verbatim>\<open>{}\<close>, and
  \<^verbatim>\<open>{a:1}\<close> is returned as it is.
\<close>

theorem sanitizeParameters_total:
  "fst (sanitizeParameters cfg v) = (case v of JObject members \<Rightarrow> v | _ \<Rightarrow> JObject [])
   \<and> fst (sanitizeParameters cfg JNull) = JObject []
   \<and> fst (sanitizeParameters cfg JUndefined) = JObject []
   \<and> fst (sanitizeParameters cfg (JArray [JNumber 1, JNumber 2])) = JObject []
   \<and> fst (sanitizeParameters cfg (JObject [(''a'', JNumber 1)])) = JObject [(''a'', JNumber 1)]"
  by (cases v) (simp_all add: sanitizeParameters_def)

section \<open>Starting\<close>

text \<open>
  C4. When the connection is \<^verbatim>\<open>Connected\<close>, \<^verbatim>\<open>start()\<close> returns without calling
  \<^verbatim>\<open>start()\<close> of the connection and leaves the service (connection, attempt counter,
  flag) as it was; the only call it makes is the log entry. When the connection is
  \<^verbatim>\<open>Connecting\<close> it does the same with the other log entry.
\<close>

theorem start_idempotent:
  assumes "connection s = Some c"
  shows "(state c = Connected \<longrightarrow>
            start oc s =
              (Inr (), s,
               logger (config s) ConsoleLog [Txt ''SignalR connection already established''])
            \<and> hub_starts (snd (snd (start oc s))) = 0)
       \<and> (state c = Connecting \<longrightarrow>
            start oc s =
              (Inr (), s,
               logger (config s) ConsoleLog
                 [Txt ''SignalR connection attempt already in progress''])
            \<and> hub_starts (snd (snd (start oc s))) = 0)"
  using assms by (simp add: start_def hub_starts_logger)

theorem start_idempotent_witness:
  "start (Resolved ''c2'') connected_service = (Inr (), connected_service, [])
   \<and> start (Resolved ''c2'') connecting_service = (Inr (), connecting_service, [])"
proof -
  have h1: "connection connected_service =
              Some (fresh_hub\<lparr> state := Connected, connectionId := Some ''c1'' \<rparr>)"
    by (simp add: connected_service_def)
  have h2: "connection connecting_service = Some (fresh_hub\<lparr> state := Connecting \<rparr>)"
    by (simp add: connecting_service_def)
  have quiet: "\<not> enableLogging (config fresh_service)"
    by (simp add: fresh_service_def constructor_def merge_config_def no_options_def)
  show ?thesis
    using start_idempotent [OF h1, of "Resolved ''c2''"] start_idempotent [OF h2, of "Resolved ''c2''"]
      quiet
    by (simp add: logger_def connected_service_def connecting_service_def)
qed

text \<open>
  C8. When \<^verbatim>\<open>start()\<close> goes on to the connection attempt (there is a connection, neither
  \<^verbatim>\<open>Connected\<close> nor \<^verbatim>\<open>Connecting\<close>): if the attempt resolves, \<^verbatim>\<open>start()\<close> returns, the
  connection is \<^verbatim>\<open>Connected\<close> and the attempt counter is 0; if the attempt rejects,
  \<^verbatim>\<open>start()\<close> throws an error \<^verbatim>\<open>Failed to start SignalR connection: ...\<close> to its caller,
  having called the connection once and set no timer. The handler of the library's
  \<^verbatim>\<open>reconnected\<close> event resets the counter as well.
\<close>

theorem start_attempt:
  assumes "connection s = Some c" and "state c \<noteq> Connected" and "state c \<noteq> Connecting"
  shows "(\<exists>s' fx. start (Resolved cid) s = (Inr (), s', fx)
            \<and> connectionState s' = Some Connected \<and> isConnected s'
            \<and> reconnectAttempts s' = 0 \<and> hub_starts fx = 1 \<and> scheduled fx = [])
       \<and> (\<exists>s' fx. start (Rejected e) s =
              (Inl (Error (''Failed to start SignalR connection: '' @ message_of e)), s', fx)
            \<and> connectionState s' = connectionState s
            \<and> reconnectAttempts s' = reconnectAttempts s
            \<and> hub_starts fx = 1 \<and> scheduled fx = [])
       \<and> reconnectAttempts (fst (onreconnected cid s)) = 0"
  using assms
  by (simp add: start_def connectionState_def isConnected_def fx_simps onreconnected_def)

theorem start_attempt_witness:
  "(\<exists>s' fx. start (Resolved ''c1'') (fresh_service\<lparr> reconnectAttempts := 3 \<rparr>) = (Inr (), s', fx)
       \<and> connectionState s' = Some Connected \<and> reconnectAttempts s' = 0)
   \<and> (\<exists>s' fx. start (Rejected (NonError ''503'')) (fresh_service\<lparr> reconnectAttempts := 3 \<rparr>) =
          (Inl (Error ''Failed to start SignalR connection: 503''), s', fx)
       \<and> hub_starts fx = 1 \<and> scheduled fx = [])"
proof -
  have h: "connection (fresh_service\<lparr> reconnectAttempts := 3 \<rparr>) = Some fresh_hub"
    by (simp add: fresh_service_def constructor_def fresh_hub_def)
  have d: "state fresh_hub \<noteq> Connected" "state fresh_hub \<noteq> Connecting"
    by (simp_all add: fresh_hub_def setupConnection_def)
  from start_attempt [OF h d, of "''c1''" "NonError ''503''"] show ?thesis
    by (elim conjE exE) (intro conjI exI; simp)
qed

section \<open>Invoking a tool\<close>

lemma scheduled_sanitizeParameters: "scheduled (snd (sanitizeParameters cfg ps)) = []"
  by (simp add: sanitizeParameters_def fx_simps)

lemma controller_calls_sanitizeParameters:
  "controller_calls (snd (sanitizeParameters cfg ps)) = []"
  by (simp add: sanitizeParameters_def fx_simps)

lemma scheduled_invokeTool: "scheduled (snd (invokeTool s n a)) = []"
proof (cases "mcpController s")
  case None
  then show ?thesis by (simp add: invokeTool_def)
next
  case (Some ctl)
  then show ?thesis
    using scheduled_sanitizeParameters [of "config s" "if a = JUndefined then JObject [] else a"]
    by (cases "sanitizeParameters (config s) (if a = JUndefined then JObject [] else a)")
       (simp add: invokeTool_def Let_def fx_simps split: sum.splits list.splits option.splits)
qed

lemma scheduled_onInvokeTool: "scheduled (snd (onInvokeTool s n a)) = []"
  using scheduled_invokeTool [of s n a]
  by (auto simp add: onInvokeTool_def Let_def fx_simps split: prod.splits sum.splits)

lemma invokeTool_calls:
  "mcpController s = Some ctl \<Longrightarrow>
   controller_calls (snd (invokeTool s n a)) =
     [[\<lparr> toolId = n,
         params = fst (sanitizeParameters (config s)
                         (if a = JUndefined then JObject [] else a)) \<rparr>]]"
  using controller_calls_sanitizeParameters
          [of "config s" "if a = JUndefined then JObject [] else a"]
  by (cases "sanitizeParameters (config s) (if a = JUndefined then JObject [] else a)")
     (simp add: invokeTool_def Let_def fx_simps split: sum.splits list.splits option.splits)

lemma invokeTool_result:
  "mcpController s = Some ctl \<Longrightarrow>
   fst (invokeTool s n a) =
     Inr (case ctl [\<lparr> toolId = n,
                      params = fst (sanitizeParameters (config s)
                                      (if a = JUndefined then JObject [] else a)) \<rparr>] of
            Inl e \<Rightarrow> createErrorResult (as_Error e)
          | Inr [] \<Rightarrow> createErrorResult (Error ''No result returned from tool execution'')
          | Inr (None # rest) \<Rightarrow>
              createErrorResult (Error ''No result returned from tool execution'')
          | Inr (Some r # rest) \<Rightarrow> r)"
  by (cases "sanitizeParameters (config s) (if a = JUndefined then JObject [] else a)")
     (simp add: invokeTool_def Let_def split: sum.splits list.splits option.splits)

lemma onInvokeTool_of_invokeTool:
  "fst (invokeTool s n a) = Inr r \<Longrightarrow>
   fst (onInvokeTool s n a) = Inr r \<and>
   controller_calls (snd (onInvokeTool s n a)) = controller_calls (snd (invokeTool s n a))"
  by (cases "invokeTool s n a") (simp add: onInvokeTool_def Let_def fx_simps)

lemma invokeTool_ignores_registry:
  "invokeTool (s\<lparr> toolRegistry := reg \<rparr>) n a = invokeTool s n a"
  by (simp add: invokeTool_def Let_def
        cong: option.case_cong prod.case_cong sum.case_cong list.case_cong)

lemma message_of_as_Error: "message_of (as_Error e) = message_of e"
  by (cases e) simp_all

text \<open>
  C10. When the controller resolves with a list whose first entry is missing (the list
  is empty, or its first entry is undefined), \<^verbatim>\<open>invokeTool\<close> does not throw and does not
  return undefined: it returns the error result saying
  \<^verbatim>\<open>No result returned from tool execution\<close>, and the handler of \<^verbatim>\<open>InvokeTool\<close> hands
  that one result to the peer.
\<close>

theorem invokeTool_no_result:
  assumes "mcpController s = Some ctl"
    and "ctl [\<lparr> toolId = n,
               params = fst (sanitizeParameters (config s)
                               (if a = JUndefined then JObject [] else a)) \<rparr>]
         = Inr results"
    and "results = [] \<or> hd results = None"
  shows "fst (invokeTool s n a) =
           Inr (createErrorResult (Error ''No result returned from tool execution''))
       \<and> fst (invokeTool s n a) =
           Inr \<lparr> success = False, content = None,
                 error = Some ''No result returned from tool execution'' \<rparr>
       \<and> fst (onInvokeTool s n a) = fst (invokeTool s n a)"
proof -
  have r: "fst (invokeTool s n a) =
             Inr (createErrorResult (Error ''No result returned from tool execution''))"
    using assms(2,3) invokeTool_result [OF assms(1), of n a]
    by (cases results; cases "hd results") auto
  show ?thesis
    using r onInvokeTool_of_invokeTool [OF r] by (simp add: createErrorResult_def)
qed

theorem invokeTool_no_result_witness:
  "fst (onInvokeTool (fresh_service\<lparr> mcpController := Some returns_nothing \<rparr>) ''tour'' JNull) =
     Inr \<lparr> success = False, content = None,
           error = Some ''No result returned from tool execution'' \<rparr>
   \<and> fst (onInvokeTool (fresh_service\<lparr> mcpController := Some returns_hole \<rparr>) ''tour'' JNull) =
     Inr \<lparr> success = False, content = None,
           error = Some ''No result returned from tool execution'' \<rparr>"
proof -
  have c1: "mcpController (fresh_service\<lparr> mcpController := Some returns_nothing \<rparr>) =
              Some returns_nothing"
    and c2: "mcpController (fresh_service\<lparr> mcpController := Some returns_hole \<rparr>) =
              Some returns_hole"
    by simp_all
  have e1: "returns_nothing ts = Inr []" and e2: "returns_hole ts = Inr [None]" for ts
    by (simp_all add: returns_nothing_def returns_hole_def)
  have d1: "[] = [] \<or> hd [] = (None :: CallToolResult option)"
    and d2: "[None] = [] \<or> hd [None] = (None :: CallToolResult option)"
    by simp_all
  show ?thesis
    using invokeTool_no_result [OF c1 e1 d1, of "''tour''" JNull]
      invokeTool_no_result [OF c2 e2 d2, of "''tour''" JNull]
    by (simp add: createErrorResult_def)
qed

text \<open>
  C7. The handler of \<^verbatim>\<open>InvokeTool\<close> always returns a result and never throws. When no
  controller is set, the error thrown by \<^verbatim>\<open>invokeTool\<close> is caught by the handler and
  becomes a result with \<^verbatim>\<open>success\<close> false and the error's message. When the controller
  throws, the thrown value is caught in \<^verbatim>\<open>invokeTool\<close> and becomes a result with
  \<^verbatim>\<open>success\<close> false and its message.
\<close>

theorem onInvokeTool_never_throws:
  "(\<exists>r. fst (onInvokeTool s n a) = Inr r)
   \<and> (mcpController s = None \<longrightarrow>
        fst (onInvokeTool s n a) =
          Inr (createErrorResult
                 (Error ''MCP Controller not set. Call setMCPController() first.'')))
   \<and> (mcpController s = None \<longrightarrow>
        fst (onInvokeTool s n a) =
          Inr \<lparr> success = False, content = None,
                error = Some ''MCP Controller not set. Call setMCPController() first.'' \<rparr>)
   \<and> (\<forall>ctl e. mcpController s = Some ctl \<and>
        ctl [\<lparr> toolId = n,
               params = fst (sanitizeParameters (config s)
                               (if a = JUndefined then JObject [] else a)) \<rparr>]
          = Inl e \<longrightarrow>
        fst (onInvokeTool s n a) = Inr (createErrorResult (as_Error e)))
   \<and> (\<forall>ctl e. mcpController s = Some ctl \<and>
        ctl [\<lparr> toolId = n,
               params = fst (sanitizeParameters (config s)
                               (if a = JUndefined then JObject [] else a)) \<rparr>]
          = Inl e \<longrightarrow>
        fst (onInvokeTool s n a) =
          Inr \<lparr> success = False, content = None, error = Some (message_of e) \<rparr>)"
proof (intro conjI allI impI)
  show "\<exists>r. fst (onInvokeTool s n a) = Inr r"
    by (cases "fst (invokeTool s n a)")
       (auto simp add: onInvokeTool_def Let_def split: prod.splits sum.splits)
next
  assume "mcpController s = None"
  then show "fst (onInvokeTool s n a) =
      Inr (createErrorResult (Error ''MCP Controller not set. Call setMCPController() first.''))"
    by (simp add: onInvokeTool_def invokeTool_def)
next
  assume "mcpController s = None"
  then show "fst (onInvokeTool s n a) =
      Inr \<lparr> success = False, content = None,
            error = Some ''MCP Controller not set. Call setMCPController() first.'' \<rparr>"
    by (simp add: onInvokeTool_def invokeTool_def createErrorResult_def)
next
  fix ctl e
  assume c: "mcpController s = Some ctl \<and>
        ctl [\<lparr> toolId = n,
               params = fst (sanitizeParameters (config s)
                               (if a = JUndefined then JObject [] else a)) \<rparr>]
          = Inl e"
  then have "fst (invokeTool s n a) = Inr (createErrorResult (as_Error e))"
    using invokeTool_result [of s ctl n a] by simp
  from onInvokeTool_of_invokeTool [OF this]
  show "fst (onInvokeTool s n a) = Inr (createErrorResult (as_Error e))"
    by simp
next
  fix ctl e
  assume c: "mcpController s = Some ctl \<and>
        ctl [\<lparr> toolId = n,
               params = fst (sanitizeParameters (config s)
                               (if a = JUndefined then JObject [] else a)) \<rparr>]
          = Inl e"
  then have "fst (invokeTool s n a) = Inr (createErrorResult (as_Error e))"
    using invokeTool_result [of s ctl n a] by simp
  from onInvokeTool_of_invokeTool [OF this]
  show "fst (onInvokeTool s n a) =
          Inr \<lparr> success = False, content = None, error = Some (message_of e) \<rparr>"
    by (simp add: createErrorResult_def message_of_as_Error)
qed

theorem onInvokeTool_never_throws_witness:
  "fst (onInvokeTool fresh_service ''tour'' (JObject [])) =
     Inr \<lparr> success = False, content = None,
           error = Some ''MCP Controller not set. Call setMCPController() first.'' \<rparr>
   \<and> fst (onInvokeTool (fresh_service\<lparr> mcpController := Some always_throws \<rparr>) ''tour'' (JObject [])) =
     Inr \<lparr> success = False, content = None, error = Some ''boom'' \<rparr>"
proof -
  have n: "mcpController fresh_service = None"
    by (simp add: fresh_service_def constructor_def)
  have t: "mcpController (fresh_service\<lparr> mcpController := Some always_throws \<rparr>) = Some always_throws \<and>
           always_throws [\<lparr> toolId = ''tour'',
               params = fst (sanitizeParameters (config (fresh_service\<lparr> mcpController := Some always_throws \<rparr>))
                               (if JObject [] = JUndefined then JObject [] else JObject [])) \<rparr>]
             = Inl (NonError ''boom'')"
    by (simp add: always_throws_def)
  show ?thesis
    using onInvokeTool_never_throws [of fresh_service "''tour''" "JObject []"] n
      onInvokeTool_never_throws
        [of "fresh_service\<lparr> mcpController := Some always_throws \<rparr>" "''tour''" "JObject []"] t
    by (metis message_of.simps(2))
qed

text \<open>
  C6, as the source has it. \<^verbatim>\<open>invokeTool\<close> does not consult the catalog. Whenever a
  controller is set, and whatever the catalog holds, it calls the controller once, with
  the one-item batch made of the tool name and the sanitized arguments, and the handler
  returns the controller's first result, or an error result when the controller throws
  or resolves without a first result. The service and its pending timers are the same
  after the request as before.
\<close>

theorem invokeTool_delegates:
  assumes "mcpController s = Some ctl"
  shows "controller_calls (snd (onInvokeTool s n a)) =
           [[\<lparr> toolId = n,
               params = fst (sanitizeParameters (config s)
                               (if a = JUndefined then JObject [] else a)) \<rparr>]]
       \<and> fst (onInvokeTool s n a) =
           Inr (case ctl [\<lparr> toolId = n,
                            params = fst (sanitizeParameters (config s)
                                            (if a = JUndefined then JObject [] else a)) \<rparr>] of
                  Inl e \<Rightarrow> createErrorResult (as_Error e)
                | Inr [] \<Rightarrow> createErrorResult (Error ''No result returned from tool execution'')
                | Inr (None # rest) \<Rightarrow>
                    createErrorResult (Error ''No result returned from tool execution'')
                | Inr (Some r # rest) \<Rightarrow> r)
       \<and> onInvokeTool (s\<lparr> toolRegistry := reg \<rparr>) n a = onInvokeTool s n a
       \<and> svc (step (PeerInvokeTool n a) w) = svc w
       \<and> timers (step (PeerInvokeTool n a) w) = timers w"
proof (intro conjI)
  note r = invokeTool_result [OF assms, of n a]
  show "controller_calls (snd (onInvokeTool s n a)) =
           [[\<lparr> toolId = n,
               params = fst (sanitizeParameters (config s)
                               (if a = JUndefined then JObject [] else a)) \<rparr>]]"
    using onInvokeTool_of_invokeTool [OF r] invokeTool_calls [OF assms, of n a] by simp
  show "fst (onInvokeTool s n a) =
           Inr (case ctl [\<lparr> toolId = n,
                            params = fst (sanitizeParameters (config s)
                                            (if a = JUndefined then JObject [] else a)) \<rparr>] of
                  Inl e \<Rightarrow> createErrorResult (as_Error e)
                | Inr [] \<Rightarrow> createErrorResult (Error ''No result returned from tool execution'')
                | Inr (None # rest) \<Rightarrow>
                    createErrorResult (Error ''No result returned from tool execution'')
                | Inr (Some r # rest) \<Rightarrow> r)"
    using onInvokeTool_of_invokeTool [OF r] by simp
  show "onInvokeTool (s\<lparr> toolRegistry := reg \<rparr>) n a = onInvokeTool s n a"
    by (simp add: onInvokeTool_def Let_def invokeTool_ignores_registry
          cong: prod.case_cong sum.case_cong)
  show "svc (step (PeerInvokeTool n a) w) = svc w"
    by (simp add: commit_def)
  show "timers (step (PeerInvokeTool n a) w) = timers w"
    by (simp add: commit_def scheduled_onInvokeTool)
qed

theorem invokeTool_delegates_witness:
  "controller_calls
     (snd (onInvokeTool (fresh_service\<lparr> mcpController := Some always_succeeds \<rparr>)
             ''nonexistent'' (JArray [JNumber 1]))) =
     [[\<lparr> toolId = ''nonexistent'', params = JObject [] \<rparr>]]
   \<and> fst (onInvokeTool (fresh_service\<lparr> mcpController := Some always_succeeds \<rparr>)
            ''nonexistent'' (JArray [JNumber 1])) =
     Inr \<lparr> success = True, content = None, error = None \<rparr>"
proof -
  have c: "mcpController (fresh_service\<lparr> mcpController := Some always_succeeds \<rparr>) =
             Some always_succeeds"
    by simp
  show ?thesis
    using invokeTool_delegates [OF c, of "''nonexistent''" "JArray [JNumber 1]"]
    by (simp add: always_succeeds_def sanitizeParameters_def)
qed

text \<open>
  A request for a tool that the catalog does not hold reaches the controller, and the
  peer receives what the controller answers, here a success.
\<close>

theorem invokeTool_unknown_tool_counterexample:
  "toolRegistry (constructor example_TransportType (Some always_succeeds) Map.empty no_options)
     ''nonexistent'' = None
   \<and> fst (onInvokeTool
            (constructor example_TransportType (Some always_succeeds) Map.empty no_options)
            ''nonexistent'' (JObject []))
       = Inr \<lparr> success = True, content = None, error = None \<rparr>
   \<and> controller_calls
        (snd (onInvokeTool
               (constructor example_TransportType (Some always_succeeds) Map.empty no_options)
               ''nonexistent'' (JObject [])))
       = [[\<lparr> toolId = ''nonexistent'', params = JObject [] \<rparr>]]"
  by (simp add: constructor_def onInvokeTool_def invokeTool_def sanitizeParameters_def
        always_succeeds_def merge_config_def no_options_def logger_def Let_def)

section \<open>The two halves of start\<close>

text \<open>Run without anything in between, the two halves are \<^verbatim>\<open>start()\<close> as one call.\<close>

lemma start_in_two_halves:
  "start oc s =
     (case start_begin s of
        (Inl e, s1, fx) \<Rightarrow> (Inl e, s1, fx)
      | (Inr False, s1, fx) \<Rightarrow> (Inr (), s1, fx)
      | (Inr True, s1, fx) \<Rightarrow>
          (case start_finish oc s1 of (r, s2, fx2) \<Rightarrow> (r, s2, fx @ fx2)))"
proof (cases "connection s")
  case None
  then show ?thesis by (simp add: start_def start_begin_def)
next
  case (Some c)
  then show ?thesis
    by (cases oc; cases "state c")
       (simp_all add: start_def start_begin_def start_finish_def hub_start_begin_def Let_def)
qed

section \<open>What each operation leaves alone\<close>

lemma scheduleReconnect_keeps:
  "connection (fst (scheduleReconnect s)) = connection s"
  "isManuallyDisconnected (fst (scheduleReconnect s)) = isManuallyDisconnected s"
  "config (fst (scheduleReconnect s)) = config s"
  "hub_starts (snd (scheduleReconnect s)) = 0"
  by (simp_all add: scheduleReconnect_def Let_def fx_simps)

lemma scheduleReconnect_counts:
  "reconnectAttempts (fst (scheduleReconnect s)) =
     reconnectAttempts s + length (scheduled (snd (scheduleReconnect s)))"
  "length (scheduled (snd (scheduleReconnect s))) \<le> 1"
  by (simp_all add: scheduleReconnect_def Let_def fx_simps)

lemma scheduleReconnect_stopped:
  "isManuallyDisconnected s \<or> int (reconnectAttempts s) \<ge> maxRetryAttempts (config s) \<Longrightarrow>
   scheduleReconnect s =
     (s, logger (config s) ConsoleError
           [Txt ''Max reconnection attempts ('', Num (maxRetryAttempts (config s)),
            Txt '') reached''])"
  by (auto simp add: scheduleReconnect_def)


lemma start_begin_keeps:
  "config (fst (snd (start_begin s))) = config s"
  "reconnectAttempts (fst (snd (start_begin s))) = reconnectAttempts s"
  "scheduled (snd (snd (start_begin s))) = []"
  "(connection (fst (snd (start_begin s))) = None) = (connection s = None)"
  by (cases "connection s"; simp add: start_begin_def fx_simps)+

lemma start_begin_None:
  "connection s = None \<Longrightarrow> fst (snd (start_begin s)) = s"
  by (simp add: start_begin_def)

lemma start_finish_keeps:
  "config (fst (snd (start_finish oc s))) = config s"
  "isManuallyDisconnected (fst (snd (start_finish oc s))) = isManuallyDisconnected s"
  "scheduled (snd (snd (start_finish oc s))) = []"
  "hub_starts (snd (snd (start_finish oc s))) = 0"
  "(connection (fst (snd (start_finish oc s))) = None) = (connection s = None)"
  by (cases oc; simp add: start_finish_def Let_def fx_simps)+

lemma start_finish_Rejected:
  "reconnectAttempts (fst (snd (start_finish (Rejected e) s))) = reconnectAttempts s"
  "\<exists>x. fst (start_finish (Rejected e) s) = Inl x"
  by (simp_all add: start_finish_def Let_def)

lemma stop_keeps:
  "config (fst (snd (stop oc s))) = config s"
  "reconnectAttempts (fst (snd (stop oc s))) = reconnectAttempts s"
  "scheduled (snd (snd (stop oc s))) = []"
  "hub_starts (snd (snd (stop oc s))) = 0"
  "(connection (fst (snd (stop oc s))) = None) = (connection s = None)"
  by (cases oc; cases "connection s"; simp add: stop_def fx_simps)+

lemma stop_sets_flag:
  "isManuallyDisconnected s \<or> connection s \<noteq> None \<Longrightarrow>
   isManuallyDisconnected (fst (snd (stop oc s)))"
  by (cases oc; cases "connection s"; simp add: stop_def)

lemma dispose_keeps:
  "config (fst (dispose oc s)) = config s"
  "reconnectAttempts (fst (dispose oc s)) = reconnectAttempts s"
  "scheduled (snd (dispose oc s)) = []"
  "hub_starts (snd (dispose oc s)) = 0"
  "isManuallyDisconnected (fst (dispose oc s))"
  by (simp_all add: dispose_def Let_def fx_simps split: option.splits)

lemma hub_moved_keeps:
  "config (hub_moved st cid s) = config s"
  "reconnectAttempts (hub_moved st cid s) = reconnectAttempts s"
  "isManuallyDisconnected (hub_moved st cid s) = isManuallyDisconnected s"
  "(connection (hub_moved st cid s) = None) = (connection s = None)"
  by (simp_all add: hub_moved_def split: option.splits)

lemma onclose_keeps:
  "config (fst (onclose err s)) = config s"
  "isManuallyDisconnected (fst (onclose err s)) = isManuallyDisconnected s"
  "connection (fst (onclose err s)) = connection s"
  "hub_starts (snd (onclose err s)) = 0"
  using scheduleReconnect_keeps [of s]
  by (cases err; cases "scheduleReconnect s"; simp add: onclose_def Let_def fx_simps)+

lemma onclose_stopped:
  assumes "isManuallyDisconnected s \<or> int (reconnectAttempts s) \<ge> maxRetryAttempts (config s)"
  shows "fst (onclose err s) = s" and "scheduled (snd (onclose err s)) = []"
  using scheduleReconnect_stopped [OF assms]
  by (cases err; auto simp add: onclose_def Let_def fx_simps)+

lemma onreconnecting_keeps:
  "fst (onreconnecting err s) = s"
  "scheduled (snd (onreconnecting err s)) = []"
  "hub_starts (snd (onreconnecting err s)) = 0"
  by (simp_all add: onreconnecting_def fx_simps)

lemma onreconnected_keeps:
  "config (fst (onreconnected cid s)) = config s"
  "isManuallyDisconnected (fst (onreconnected cid s)) = isManuallyDisconnected s"
  "connection (fst (onreconnected cid s)) = connection s"
  "scheduled (snd (onreconnected cid s)) = []"
  "hub_starts (snd (onreconnected cid s)) = 0"
  by (simp_all add: onreconnected_def fx_simps)

lemma timerCatch_keeps:
  "config (fst (timerCatch e s)) = config s"
  "isManuallyDisconnected (fst (timerCatch e s)) = isManuallyDisconnected s"
  "connection (fst (timerCatch e s)) = connection s"
  "hub_starts (snd (timerCatch e s)) = 0"
  using scheduleReconnect_keeps [of s]
  by (cases "scheduleReconnect s"; simp add: timerCatch_def fx_simps)+

lemma timerCatch_stopped:
  assumes "isManuallyDisconnected s \<or> int (reconnectAttempts s) \<ge> maxRetryAttempts (config s)"
  shows "fst (timerCatch e s) = s" and "scheduled (snd (timerCatch e s)) = []"
  using scheduleReconnect_stopped [OF assms]
  by (simp_all add: timerCatch_def fx_simps)

lemma timerFired_alt:
  "timerFired s =
     (if isManuallyDisconnected s then (False, s, [])
      else case start_begin s of
             (Inr b, s1, fx) \<Rightarrow> (b, s1, fx)
           | (Inl e, s1, fx) \<Rightarrow> (False, fst (timerCatch e s1), fx @ snd (timerCatch e s1)))"
  by (simp add: timerFired_def case_prod_beta split: prod.splits sum.splits)

lemma timerSettled_alt:
  "timerSettled oc s =
     (case start_finish oc s of
        (Inr u, s1, fx) \<Rightarrow> (s1, fx)
      | (Inl e, s1, fx) \<Rightarrow> (fst (timerCatch e s1), fx @ snd (timerCatch e s1)))"
  by (simp add: timerSettled_def case_prod_beta split: prod.splits sum.splits)

lemma timerFired_flagged:
  "isManuallyDisconnected s \<Longrightarrow> timerFired s = (False, s, [])"
  by (simp add: timerFired_def)

lemma timerFired_keeps:
  "config (fst (snd (timerFired s))) = config s"
  "(connection (fst (snd (timerFired s))) = None) = (connection s = None)"
proof -
  obtain r s1 fx where st: "start_begin s = (r, s1, fx)"
    by (cases "start_begin s") auto
  have c: "config s1 = config s" and n: "(connection s1 = None) = (connection s = None)"
    using start_begin_keeps(1,4) [of s] st by simp_all
  show "config (fst (snd (timerFired s))) = config s"
    using c st by (cases r) (simp_all add: timerFired_alt timerCatch_keeps)
  show "(connection (fst (snd (timerFired s))) = None) = (connection s = None)"
    using n st by (cases r) (simp_all add: timerFired_alt timerCatch_keeps)
qed

lemma timerFired_exhausted:
  assumes "int (reconnectAttempts s) \<ge> maxRetryAttempts (config s)"
  shows "reconnectAttempts (fst (snd (timerFired s))) = reconnectAttempts s"
    and "scheduled (snd (snd (timerFired s))) = []"
proof -
  obtain r s1 fx where st: "start_begin s = (r, s1, fx)"
    by (cases "start_begin s") auto
  have a: "reconnectAttempts s1 = reconnectAttempts s" and c: "config s1 = config s"
    and f: "scheduled fx = []"
    using start_begin_keeps(1,2,3) [of s] st by simp_all
  have x: "isManuallyDisconnected s1 \<or> int (reconnectAttempts s1) \<ge> maxRetryAttempts (config s1)"
    using assms a c by simp
  show "reconnectAttempts (fst (snd (timerFired s))) = reconnectAttempts s"
    using st a by (cases r) (simp_all add: timerFired_alt timerCatch_stopped [OF x])
  show "scheduled (snd (snd (timerFired s))) = []"
    using st f by (cases r) (simp_all add: timerFired_alt fx_simps timerCatch_stopped [OF x])
qed

lemma timerSettled_keeps:
  "config (fst (timerSettled oc s)) = config s"
  "isManuallyDisconnected (fst (timerSettled oc s)) = isManuallyDisconnected s"
  "(connection (fst (timerSettled oc s)) = None) = (connection s = None)"
  "hub_starts (snd (timerSettled oc s)) = 0"
proof -
  obtain r s1 fx where st: "start_finish oc s = (r, s1, fx)"
    by (cases "start_finish oc s") auto
  have k: "config s1 = config s" "isManuallyDisconnected s1 = isManuallyDisconnected s"
    "(connection s1 = None) = (connection s = None)" "hub_starts fx = 0"
    using start_finish_keeps(1,2,5,4) [of oc s] st by simp_all
  show "config (fst (timerSettled oc s)) = config s"
    using k(1) st by (cases r) (simp_all add: timerSettled_alt timerCatch_keeps)
  show "isManuallyDisconnected (fst (timerSettled oc s)) = isManuallyDisconnected s"
    using k(2) st by (cases r) (simp_all add: timerSettled_alt timerCatch_keeps)
  show "(connection (fst (timerSettled oc s)) = None) = (connection s = None)"
    using k(3) st by (cases r) (simp_all add: timerSettled_alt timerCatch_keeps)
  show "hub_starts (snd (timerSettled oc s)) = 0"
    using k(4) st by (cases r) (simp_all add: timerSettled_alt timerCatch_keeps fx_simps)
qed

lemma timerSettled_flagged:
  assumes "isManuallyDisconnected s"
  shows "scheduled (snd (timerSettled oc s)) = []"
proof -
  obtain r s1 fx where st: "start_finish oc s = (r, s1, fx)"
    by (cases "start_finish oc s") auto
  have f: "scheduled fx = []" and g: "isManuallyDisconnected s1"
    using start_finish_keeps(3,2) [of oc s] st assms by simp_all
  then have x: "isManuallyDisconnected s1 \<or> int (reconnectAttempts s1) \<ge> maxRetryAttempts (config s1)"
    by simp
  show ?thesis
    using st f by (cases r) (simp_all add: timerSettled_alt fx_simps timerCatch_stopped [OF x])
qed

lemma timerSettled_exhausted:
  assumes "int (reconnectAttempts s) \<ge> maxRetryAttempts (config s)"
  shows "reconnectAttempts (fst (timerSettled (Rejected e) s)) = reconnectAttempts s"
    and "scheduled (snd (timerSettled (Rejected e) s)) = []"
proof -
  obtain r s1 fx where st: "start_finish (Rejected e) s = (r, s1, fx)"
    by (cases "start_finish (Rejected e) s") auto
  have a: "reconnectAttempts s1 = reconnectAttempts s" and c: "config s1 = config s"
    and f: "scheduled fx = []"
    using start_finish_Rejected(1) [of e s] start_finish_keeps(1,3) [of "Rejected e" s] st
    by simp_all
  have x: "isManuallyDisconnected s1 \<or> int (reconnectAttempts s1) \<ge> maxRetryAttempts (config s1)"
    using assms a c by simp
  show "reconnectAttempts (fst (timerSettled (Rejected e) s)) = reconnectAttempts s"
    using st a by (cases r) (simp_all add: timerSettled_alt timerCatch_stopped [OF x])
  show "scheduled (snd (timerSettled (Rejected e) s)) = []"
    using st f by (cases r) (simp_all add: timerSettled_alt fx_simps timerCatch_stopped [OF x])
qed

section \<open>Runs\<close>

text \<open>The equations that evaluate a run of a constructed service.\<close>

lemmas run_defs =
  boot_def constructor_def merge_config_def setupConnection_def commit_def waiting_def
  hub_moved_def hub_start_begin_def start_begin_def start_finish_def stop_def
  onclose_def onreconnecting_def onreconnected_def scheduleReconnect_def
  timerCatch_def timerFired_def timerSettled_def js_pow2_def logger_def Let_def

lemma commit_fields:
  "svc (commit r w) = fst r"
  "timers (commit r w) = timers w @ scheduled (snd r)"
  "trace (commit r w) = trace w @ snd r"
  by (simp_all add: commit_def)

lemma waiting_fields:
  "svc (waiting b who w) = svc w"
  "timers (waiting b who w) = timers w"
  "trace (waiting b who w) = trace w"
  by (simp_all add: waiting_def)

lemma set_without: "set (take k xs @ drop (Suc k) xs) \<subseteq> set xs"
  using set_take_subset [of k xs] set_drop_subset [of "Suc k" xs] by auto

lemma hub_starts_sanitizeParameters: "hub_starts (snd (sanitizeParameters cfg ps)) = 0"
  by (simp add: sanitizeParameters_def fx_simps)

lemma hub_starts_invokeTool: "hub_starts (snd (invokeTool s n a)) = 0"
proof (cases "mcpController s")
  case None
  then show ?thesis by (simp add: invokeTool_def)
next
  case (Some ctl)
  then show ?thesis
    using hub_starts_sanitizeParameters [of "config s" "if a = JUndefined then JObject [] else a"]
    by (cases "sanitizeParameters (config s) (if a = JUndefined then JObject [] else a)")
       (simp add: invokeTool_def Let_def fx_simps split: sum.splits list.splits option.splits)
qed

lemma hub_starts_onInvokeTool: "hub_starts (snd (onInvokeTool s n a)) = 0"
  using hub_starts_invokeTool [of s n a]
  by (auto simp add: onInvokeTool_def Let_def fx_simps split: prod.splits sum.splits)

text \<open>What one event does, with the results of the operation named.\<close>

lemma step_CallStart:
  "svc (step CallStart w) = fst (snd (start_begin (svc w)))"
  "timers (step CallStart w) = timers w @ scheduled (snd (snd (start_begin (svc w))))"
  "trace (step CallStart w) = trace w @ snd (snd (start_begin (svc w)))"
  by (cases "start_begin (svc w)"; cases "fst (start_begin (svc w))";
      simp add: commit_fields waiting_fields)+

lemma step_TimerFired:
  "k < length (timers w) \<Longrightarrow> svc (step (TimerFired k) w) = fst (snd (timerFired (svc w)))"
  "k < length (timers w) \<Longrightarrow>
     timers (step (TimerFired k) w) =
       (take k (timers w) @ drop (Suc k) (timers w)) @ scheduled (snd (snd (timerFired (svc w))))"
  "k < length (timers w) \<Longrightarrow>
     trace (step (TimerFired k) w) = trace w @ snd (snd (timerFired (svc w)))"
  "\<not> k < length (timers w) \<Longrightarrow> step (TimerFired k) w = w"
  by (cases "timerFired (svc w)"; simp add: commit_fields waiting_fields)+

lemma step_StartSettled:
  "k < length (starts w) \<Longrightarrow> starts w ! k = ByApplication \<Longrightarrow>
     svc (step (StartSettled k oc) w) = fst (snd (start_finish oc (svc w))) \<and>
     timers (step (StartSettled k oc) w) = timers w @ scheduled (snd (snd (start_finish oc (svc w)))) \<and>
     trace (step (StartSettled k oc) w) = trace w @ snd (snd (start_finish oc (svc w)))"
  "k < length (starts w) \<Longrightarrow> starts w ! k = ByTimer \<Longrightarrow>
     svc (step (StartSettled k oc) w) = fst (timerSettled oc (svc w)) \<and>
     timers (step (StartSettled k oc) w) = timers w @ scheduled (snd (timerSettled oc (svc w))) \<and>
     trace (step (StartSettled k oc) w) = trace w @ snd (timerSettled oc (svc w))"
  "\<not> k < length (starts w) \<Longrightarrow> step (StartSettled k oc) w = w"
  by (simp_all add: commit_fields)

text \<open>The configuration is read-only.\<close>

lemma config_step: "config (svc (step e w)) = config (svc w)"
proof (cases e)
  case CallStart
  then show ?thesis by (simp only: step_CallStart start_begin_keeps)
next
  case (StartSettled k oc)
  show ?thesis
  proof (cases "k < length (starts w)")
    case True
    with StartSettled show ?thesis
      by (cases "starts w ! k")
         (simp_all only: step_StartSettled start_finish_keeps timerSettled_keeps)
  next
    case False
    with StartSettled show ?thesis by simp
  qed
next
  case (TimerFired k)
  show ?thesis
  proof (cases "k < length (timers w)")
    case True
    with TimerFired show ?thesis by (simp only: step_TimerFired timerFired_keeps)
  next
    case False
    with TimerFired show ?thesis by simp
  qed
qed (simp_all add: commit_fields stop_keeps dispose_keeps onclose_keeps
       onreconnecting_keeps onreconnected_keeps hub_moved_keeps)

text \<open>
  The service forgets its connection only in \<^verbatim>\<open>dispose()\<close>, which sets the flag, and
  \<^verbatim>\<open>start()\<close> throws before it touches the flag when there is no connection. So a
  service without a connection has the flag set.
\<close>

lemma disposed_flagged_step:
  assumes "connection (svc w) = None \<longrightarrow> isManuallyDisconnected (svc w)"
  shows "connection (svc (step e w)) = None \<longrightarrow> isManuallyDisconnected (svc (step e w))"
proof (cases e)
  case CallStart
  show ?thesis
  proof (cases "connection (svc w)")
    case None
    with assms CallStart show ?thesis by (simp only: step_CallStart start_begin_None) simp
  next
    case (Some c)
    with CallStart show ?thesis by (simp only: step_CallStart start_begin_keeps) simp
  qed
next
  case (StartSettled k oc)
  show ?thesis
  proof (cases "k < length (starts w)")
    case True
    with StartSettled assms show ?thesis
      by (cases "starts w ! k")
         (simp_all only: step_StartSettled start_finish_keeps timerSettled_keeps)
  next
    case False
    with StartSettled assms show ?thesis by simp
  qed
next
  case (CallStop oc)
  have "isManuallyDisconnected (svc w) \<or> connection (svc w) \<noteq> None"
    using assms by auto
  from stop_sets_flag [OF this] CallStop show ?thesis by (simp add: commit_fields)
next
  case (CallDispose oc)
  then show ?thesis by (simp add: commit_fields dispose_keeps)
next
  case (HubClosed err)
  with assms show ?thesis by (simp add: commit_fields onclose_keeps hub_moved_keeps)
next
  case (HubReconnecting err)
  with assms show ?thesis by (simp add: commit_fields onreconnecting_keeps hub_moved_keeps)
next
  case (HubReconnected cid)
  with assms show ?thesis by (simp add: commit_fields onreconnected_keeps hub_moved_keeps)
next
  case (HubMoved st cid)
  with assms show ?thesis by (simp add: hub_moved_keeps)
next
  case (TimerFired k)
  show ?thesis
  proof (cases "k < length (timers w)")
    case False
    with TimerFired assms show ?thesis by simp
  next
    case True
    show ?thesis
    proof (cases "connection (svc w)")
      case None
      with assms have "isManuallyDisconnected (svc w)" by simp
      with True TimerFired None show ?thesis
        by (simp only: step_TimerFired timerFired_flagged) simp
    next
      case (Some c)
      with True TimerFired show ?thesis
        by (simp only: step_TimerFired timerFired_keeps) simp
    qed
  qed
next
  case (PeerInvokeTool n a)
  with assms show ?thesis by (simp add: commit_fields)
qed

lemma disposed_flagged_run:
  "connection (svc w) = None \<longrightarrow> isManuallyDisconnected (svc w) \<Longrightarrow>
   connection (svc (run es w)) = None \<longrightarrow> isManuallyDisconnected (svc (run es w))"
proof (induction es arbitrary: w)
  case Nil
  then show ?case by simp
next
  case (Cons e es)
  from Cons.IH [OF disposed_flagged_step [OF Cons.prems]] show ?case by simp
qed

lemma disposed_flagged_boot:
  "connection (svc (boot (constructor T ctl reg p))) \<noteq> None"
  by (simp add: boot_def constructor_def)

text \<open>With the flag set, nothing but \<^verbatim>\<open>start()\<close> called by the application clears it.\<close>

lemma flagged_step:
  assumes "isManuallyDisconnected (svc w)" and "\<not> is_CallStart e"
  shows "isManuallyDisconnected (svc (step e w))
       \<and> scheduled (trace (step e w)) = scheduled (trace w)
       \<and> hub_starts (trace (step e w)) = hub_starts (trace w)
       \<and> set (timers (step e w)) \<subseteq> set (timers w)"
proof (cases e)
  case CallStart
  with assms(2) show ?thesis by simp
next
  case (StartSettled k oc)
  show ?thesis
  proof (cases "k < length (starts w)")
    case False
    with StartSettled assms(1) show ?thesis by (simp only: step_StartSettled) simp
  next
    case True
    show ?thesis
    proof (cases "starts w ! k")
      case ByApplication
      with True StartSettled assms(1) show ?thesis
        by (simp only: step_StartSettled start_finish_keeps fx_simps) simp
    next
      case ByTimer
      with True StartSettled assms(1) timerSettled_flagged [OF assms(1), of oc] show ?thesis
        by (simp only: step_StartSettled timerSettled_keeps fx_simps) simp
    qed
  qed
next
  case (CallStop oc)
  with assms(1) show ?thesis
    by (simp add: commit_fields fx_simps stop_keeps stop_sets_flag)
next
  case (CallDispose oc)
  then show ?thesis by (simp add: commit_fields fx_simps dispose_keeps)
next
  case (HubClosed err)
  have f: "isManuallyDisconnected (hub_moved Disconnected None (svc w)) \<or>
           int (reconnectAttempts (hub_moved Disconnected None (svc w)))
             \<ge> maxRetryAttempts (config (hub_moved Disconnected None (svc w)))"
    using assms(1) by (simp add: hub_moved_keeps)
  from onclose_stopped [OF f] HubClosed assms(1) show ?thesis
    by (simp add: commit_fields fx_simps onclose_keeps hub_moved_keeps)
next
  case (HubReconnecting err)
  with assms(1) show ?thesis
    by (simp add: commit_fields fx_simps onreconnecting_keeps hub_moved_keeps)
next
  case (HubReconnected cid)
  with assms(1) show ?thesis
    by (simp add: commit_fields fx_simps onreconnected_keeps hub_moved_keeps)
next
  case (HubMoved st cid)
  with assms(1) show ?thesis by (simp add: hub_moved_keeps)
next
  case (TimerFired k)
  show ?thesis
  proof (cases "k < length (timers w)")
    case False
    with TimerFired assms(1) show ?thesis by (simp only: step_TimerFired) simp
  next
    case True
    with TimerFired assms(1) set_without [of k "timers w"] show ?thesis
      by (simp only: step_TimerFired timerFired_flagged) simp
  qed
next
  case (PeerInvokeTool n a)
  with assms(1) show ?thesis
    by (simp add: commit_fields fx_simps scheduled_onInvokeTool hub_starts_onInvokeTool)
qed

lemma flagged_run:
  "isManuallyDisconnected (svc w) \<Longrightarrow> \<forall>e\<in>set es. \<not> is_CallStart e \<Longrightarrow>
   isManuallyDisconnected (svc (run es w))
   \<and> scheduled (trace (run es w)) = scheduled (trace w)
   \<and> hub_starts (trace (run es w)) = hub_starts (trace w)
   \<and> set (timers (run es w)) \<subseteq> set (timers w)"
proof (induction es arbitrary: w)
  case Nil
  then show ?case by simp
next
  case (Cons e es)
  have s: "isManuallyDisconnected (svc (step e w))
       \<and> scheduled (trace (step e w)) = scheduled (trace w)
       \<and> hub_starts (trace (step e w)) = hub_starts (trace w)
       \<and> set (timers (step e w)) \<subseteq> set (timers w)"
    using flagged_step [of w e] Cons.prems by simp
  have "isManuallyDisconnected (svc (run es (step e w)))
       \<and> scheduled (trace (run es (step e w))) = scheduled (trace (step e w))
       \<and> hub_starts (trace (run es (step e w))) = hub_starts (trace (step e w))
       \<and> set (timers (run es (step e w))) \<subseteq> set (timers (step e w))"
    using Cons.IH [of "step e w"] s Cons.prems by simp
  with s show ?case by auto
qed

text \<open>
  With the attempt counter at the bound, it stays there and no timer is set until an
  attempt to connect resolves or the library reports a reconnection.
\<close>

lemma exhausted_step:
  assumes "int (reconnectAttempts (svc w)) \<ge> maxRetryAttempts (config (svc w))"
    and "\<not> may_reset e"
  shows "reconnectAttempts (svc (step e w)) = reconnectAttempts (svc w)
       \<and> scheduled (trace (step e w)) = scheduled (trace w)
       \<and> set (timers (step e w)) \<subseteq> set (timers w)"
proof (cases e)
  case CallStart
  then show ?thesis by (simp only: step_CallStart start_begin_keeps fx_simps) simp
next
  case (StartSettled k oc)
  with assms(2) obtain x where oc: "oc = Rejected x" by (cases oc) simp_all
  show ?thesis
  proof (cases "k < length (starts w)")
    case False
    with StartSettled show ?thesis by (simp only: step_StartSettled) simp
  next
    case True
    show ?thesis
    proof (cases "starts w ! k")
      case ByApplication
      with True StartSettled oc show ?thesis
        by (simp only: step_StartSettled start_finish_keeps start_finish_Rejected fx_simps) simp
    next
      case ByTimer
      with True StartSettled oc timerSettled_exhausted [OF assms(1), of x] show ?thesis
        by (simp only: step_StartSettled fx_simps) simp
    qed
  qed
next
  case (CallStop oc)
  then show ?thesis by (simp add: commit_fields fx_simps stop_keeps)
next
  case (CallDispose oc)
  then show ?thesis by (simp add: commit_fields fx_simps dispose_keeps)
next
  case (HubClosed err)
  have f: "isManuallyDisconnected (hub_moved Disconnected None (svc w)) \<or>
           int (reconnectAttempts (hub_moved Disconnected None (svc w)))
             \<ge> maxRetryAttempts (config (hub_moved Disconnected None (svc w)))"
    using assms(1) by (simp add: hub_moved_keeps)
  from onclose_stopped [OF f] HubClosed show ?thesis
    by (simp add: commit_fields fx_simps hub_moved_keeps)
next
  case (HubReconnecting err)
  then show ?thesis
    by (simp add: commit_fields fx_simps onreconnecting_keeps hub_moved_keeps)
next
  case (HubReconnected cid)
  with assms(2) show ?thesis by simp
next
  case (HubMoved st cid)
  then show ?thesis by (simp add: hub_moved_keeps)
next
  case (TimerFired k)
  show ?thesis
  proof (cases "k < length (timers w)")
    case False
    with TimerFired show ?thesis by (simp only: step_TimerFired) simp
  next
    case True
    with TimerFired timerFired_exhausted [OF assms(1)] set_without [of k "timers w"]
    show ?thesis
      by (simp only: step_TimerFired fx_simps) simp
  qed
next
  case (PeerInvokeTool n a)
  then show ?thesis by (simp add: commit_fields fx_simps scheduled_onInvokeTool)
qed

lemma exhausted_run:
  "int (reconnectAttempts (svc w)) \<ge> maxRetryAttempts (config (svc w)) \<Longrightarrow>
   \<forall>e\<in>set es. \<not> may_reset e \<Longrightarrow>
   reconnectAttempts (svc (run es w)) = reconnectAttempts (svc w)
   \<and> scheduled (trace (run es w)) = scheduled (trace w)
   \<and> set (timers (run es w)) \<subseteq> set (timers w)"
proof (induction es arbitrary: w)
  case Nil
  then show ?case by simp
next
  case (Cons e es)
  have s: "reconnectAttempts (svc (step e w)) = reconnectAttempts (svc w)
       \<and> scheduled (trace (step e w)) = scheduled (trace w)
       \<and> set (timers (step e w)) \<subseteq> set (timers w)"
    using exhausted_step [of w e] Cons.prems by simp
  then have "int (reconnectAttempts (svc (step e w))) \<ge> maxRetryAttempts (config (svc (step e w)))"
    using Cons.prems(1) by (simp add: config_step)
  from Cons.IH [OF this] Cons.prems(2)
  have "reconnectAttempts (svc (run es (step e w))) = reconnectAttempts (svc (step e w))
       \<and> scheduled (trace (run es (step e w))) = scheduled (trace (step e w))
       \<and> set (timers (run es (step e w))) \<subseteq> set (timers (step e w))"
    by simp
  with s show ?case by auto
qed

section \<open>Reconnection after a close\<close>








section \<open>Stopping\<close>

text \<open>
  C2. Take any run of a constructed service, then \<^verbatim>\<open>stop()\<close>. The flag is then set; a
  close event sets no timer; a retry timer that fires does nothing; a retry that was
  waiting for the connection when \<^verbatim>\<open>stop()\<close> was called sets no timer when it settles,
  whatever the outcome; and through any further events other than a call of \<^verbatim>\<open>start()\<close>
  by the application (closes, timers that were pending, attempts in flight that settle,
  state changes and events of the library, requests, more stops), the flag stays set,
  no timer is set and \<^verbatim>\<open>start()\<close> of the connection is not called.
\<close>

theorem stop_suppresses_reconnect:
  fixes T ctl reg p es0 oc
  defines "w1 \<equiv> step (CallStop oc) (run es0 (boot (constructor T ctl reg p)))"
  assumes "\<forall>e\<in>set es. \<not> is_CallStart e"
  shows "isManuallyDisconnected (svc w1)
       \<and> (\<forall>err. fst (onclose err (svc w1)) = svc w1
                \<and> scheduled (snd (onclose err (svc w1))) = []
                \<and> hub_starts (snd (onclose err (svc w1))) = 0)
       \<and> timerFired (svc w1) = (False, svc w1, [])
       \<and> (\<forall>oc'. isManuallyDisconnected (fst (timerSettled oc' (svc w1)))
                \<and> scheduled (snd (timerSettled oc' (svc w1))) = []
                \<and> hub_starts (snd (timerSettled oc' (svc w1))) = 0)
       \<and> isManuallyDisconnected (svc (run es w1))
       \<and> scheduled (trace (run es w1)) = scheduled (trace w1)
       \<and> hub_starts (trace (run es w1)) = hub_starts (trace w1)
       \<and> set (timers (run es w1)) \<subseteq> set (timers w1)"
proof -
  let ?w0 = "run es0 (boot (constructor T ctl reg p))"
  have "connection (svc ?w0) = None \<longrightarrow> isManuallyDisconnected (svc ?w0)"
    using disposed_flagged_run [of "boot (constructor T ctl reg p)" es0]
      disposed_flagged_boot [of T ctl reg p]
    by simp
  then have "isManuallyDisconnected (svc ?w0) \<or> connection (svc ?w0) \<noteq> None"
    by auto
  from stop_sets_flag [OF this] have f: "isManuallyDisconnected (svc w1)"
    by (simp add: w1_def commit_fields)
  then have g: "isManuallyDisconnected (svc w1) \<or>
      int (reconnectAttempts (svc w1)) \<ge> maxRetryAttempts (config (svc w1))"
    by simp
  have c: "fst (onclose err (svc w1)) = svc w1
         \<and> scheduled (snd (onclose err (svc w1))) = []
         \<and> hub_starts (snd (onclose err (svc w1))) = 0" for err
    using onclose_stopped [OF g, of err] onclose_keeps(4) [of err "svc w1"] by simp
  have t: "timerFired (svc w1) = (False, svc w1, [])"
    by (rule timerFired_flagged [OF f])
  have u: "isManuallyDisconnected (fst (timerSettled oc' (svc w1)))
         \<and> scheduled (snd (timerSettled oc' (svc w1))) = []
         \<and> hub_starts (snd (timerSettled oc' (svc w1))) = 0" for oc'
    using f timerSettled_keeps(2,4) [of oc' "svc w1"] timerSettled_flagged [OF f, of oc']
    by simp
  from flagged_run [OF f assms(2)] f c t u show ?thesis
    by blast
qed

text \<open>
  A retry is waiting for the connection when \<^verbatim>\<open>stop()\<close> is called; the attempt then
  fails and the connection closes. The counter is at 1 of 10 and the flag alone keeps
  \<^verbatim>\<open>scheduleReconnect()\<close> from setting a timer.
\<close>

theorem stop_suppresses_reconnect_witness:
  "starts (step (CallStop None) (run retry_in_flight (boot fresh_service))) = [ByTimer]
   \<and> reconnectAttempts (svc (step (CallStop None) (run retry_in_flight (boot fresh_service)))) = 1
   \<and> scheduled (trace (run [StartSettled 0 (Rejected (Error ''stopped'')), HubClosed None]
        (step (CallStop None) (run retry_in_flight (boot fresh_service))))) = [Finite 1000]
   \<and> hub_starts (trace (run [StartSettled 0 (Rejected (Error ''stopped'')), HubClosed None]
        (step (CallStop None) (run retry_in_flight (boot fresh_service))))) = 2
   \<and> starts (run [StartSettled 0 (Rejected (Error ''stopped'')), HubClosed None]
        (step (CallStop None) (run retry_in_flight (boot fresh_service)))) = []"
proof -
  have h: "\<forall>e\<in>set [StartSettled 0 (Rejected (Error ''stopped'')), HubClosed None].
             \<not> is_CallStart e"
    by simp
  have v: "starts (step (CallStop None) (run retry_in_flight (boot fresh_service))) = [ByTimer]"
    "reconnectAttempts (svc (step (CallStop None) (run retry_in_flight (boot fresh_service)))) = 1"
    "scheduled (trace (step (CallStop None) (run retry_in_flight (boot fresh_service))))
       = [Finite 1000]"
    "hub_starts (trace (step (CallStop None) (run retry_in_flight (boot fresh_service)))) = 2"
    "starts (run [StartSettled 0 (Rejected (Error ''stopped'')), HubClosed None]
        (step (CallStop None) (run retry_in_flight (boot fresh_service)))) = []"
    by (simp_all add: run_defs fresh_service_def no_options_def retry_in_flight_def)
  from stop_suppresses_reconnect
    [OF h, of None retry_in_flight example_TransportType None Map.empty no_options]
  show ?thesis
    using v unfolding fresh_service_def by simp
qed

section \<open>Running out of attempts\<close>

text \<open>
  C3, as the source has it. \<^verbatim>\<open>scheduleReconnect\<close> raises the attempt counter by exactly
  one when it sets a timer and leaves it alone otherwise. Once the counter has reached
  \<^verbatim>\<open>maxRetryAttempts\<close>, \<^verbatim>\<open>scheduleReconnect\<close> only writes the log entry (nothing when
  logging is off) and returns, and through any further events the counter stays and
  no timer is set, until the counter is reset: by a \<^verbatim>\<open>start()\<close> whose connection attempt
  resolves (called by the application, or by a retry timer that was still pending),
  or by the library's \<^verbatim>\<open>reconnected\<close> event.
\<close>

theorem reconnect_exhaustion:
  "reconnectAttempts (fst (scheduleReconnect s)) =
     reconnectAttempts s + length (scheduled (snd (scheduleReconnect s)))
   \<and> length (scheduled (snd (scheduleReconnect s))) \<le> 1
   \<and> (int (reconnectAttempts s) \<ge> maxRetryAttempts (config s) \<longrightarrow>
        scheduleReconnect s =
          (s, logger (config s) ConsoleError
                [Txt ''Max reconnection attempts ('', Num (maxRetryAttempts (config s)),
                 Txt '') reached'']))
   \<and> (int (reconnectAttempts (svc w)) \<ge> maxRetryAttempts (config (svc w))
        \<and> (\<forall>e\<in>set es. \<not> may_reset e) \<longrightarrow>
        reconnectAttempts (svc (run es w)) = reconnectAttempts (svc w)
        \<and> scheduled (trace (run es w)) = scheduled (trace w)
        \<and> set (timers (run es w)) \<subseteq> set (timers w))"
  using scheduleReconnect_counts [of s] scheduleReconnect_stopped [of s]
    exhausted_run [of w es]
  by blast

theorem reconnect_exhaustion_witness:
  "reconnectAttempts (svc (run [CallStart, StartSettled 0 (Resolved ''c1''), HubClosed None,
       TimerFired 0, StartSettled 0 (Rejected (NonError ''503''))] (boot one_retry_service))) = 1
   \<and> scheduleReconnect (svc (run [CallStart, StartSettled 0 (Resolved ''c1''), HubClosed None,
       TimerFired 0, StartSettled 0 (Rejected (NonError ''503''))] (boot one_retry_service))) =
       (svc (run [CallStart, StartSettled 0 (Resolved ''c1''), HubClosed None,
          TimerFired 0, StartSettled 0 (Rejected (NonError ''503''))] (boot one_retry_service)),
        [Console ConsoleError [Txt ''Max reconnection attempts ('', Num 1, Txt '') reached'']])
   \<and> scheduled (trace (run [CallStart, StartSettled 0 (Rejected (NonError ''503'')),
         HubReconnecting None, CallStop None, HubClosed None]
        (run [CallStart, StartSettled 0 (Resolved ''c1''), HubClosed None,
          TimerFired 0, StartSettled 0 (Rejected (NonError ''503''))] (boot one_retry_service))))
       = [Finite 1000]"
proof -
  let ?w = "run [CallStart, StartSettled 0 (Resolved ''c1''), HubClosed None,
       TimerFired 0, StartSettled 0 (Rejected (NonError ''503''))] (boot one_retry_service)"
  let ?es = "[CallStart, StartSettled 0 (Rejected (NonError ''503'')),
         HubReconnecting None, CallStop None, HubClosed None]"
  have v: "reconnectAttempts (svc ?w) = 1" "maxRetryAttempts (config (svc ?w)) = 1"
    "enableLogging (config (svc ?w))" "scheduled (trace ?w) = [Finite 1000]"
    by (simp_all add: run_defs one_retry_service_def one_retry_logged_def no_options_def)
  have h: "\<forall>e\<in>set ?es. \<not> may_reset e"
    by simp
  show ?thesis
    using reconnect_exhaustion [of "svc ?w" ?w ?es] v h
    by (simp del: run.simps step.simps add: logger_def)
qed

text \<open>
  The counter reaches the bound while the library is reconnecting, and the exhaustion
  is logged. The library then reconnects, which resets the counter, and the next close
  sets a retry timer again. No \<^verbatim>\<open>start()\<close> was called in between.
\<close>

theorem reconnect_exhaustion_counterexample:
  "last (trace (run exhausting_run (boot one_retry_service))) =
     Console ConsoleError [Txt ''Max reconnection attempts ('', Num 1, Txt '') reached'']
   \<and> int (reconnectAttempts (svc (run exhausting_run (boot one_retry_service))))
        \<ge> maxRetryAttempts (config (svc (run exhausting_run (boot one_retry_service))))
   \<and> timers (run exhausting_run (boot one_retry_service)) = []
   \<and> starts (run exhausting_run (boot one_retry_service)) = []
   \<and> \<not> is_CallStart (HubReconnected ''c3'') \<and> \<not> is_CallStart (HubClosed None)
   \<and> scheduled (trace (run [HubReconnected ''c3'', HubClosed None]
                         (run exhausting_run (boot one_retry_service)))) =
       scheduled (trace (run exhausting_run (boot one_retry_service))) @ [Finite 1000]
   \<and> timers (run [HubReconnected ''c3'', HubClosed None]
               (run exhausting_run (boot one_retry_service))) = [Finite 1000]"
  by (simp add: run_defs one_retry_service_def one_retry_logged_def no_options_def
        exhausting_run_def not_disconnected_def)


end
